theory Spec2Isabelle
  imports Main "HOL-Library.Word"
begin

unbundle bit_operations_syntax

chapter \<open>The embedding of the allocators\<close>

section \<open>Blocks and alignment arithmetic (block.hpp)\<close>

text \<open>
  The library targets a 64-bit platform: \<^verbatim>\<open>size_t\<close> is an unsigned 64-bit integer and a
  pointer is a 64-bit address. Both are modelled as \<^typ>\<open>64 word\<close>, so that every addition
  and subtraction wraps around exactly as the unsigned arithmetic of the source does.
  \<^verbatim>\<open>nullptr\<close> is the address 0. Pointer comparisons are unsigned comparisons of addresses.
\<close>

type_synonym size_t = "64 word"
type_synonym pointer = "64 word"

text \<open>\<^verbatim>\<open>struct block { void *ptr; size_t size; }\<close>; the field \<^verbatim>\<open>size\<close> is named
  \<open>size_b\<close> because \<open>size\<close> is a constant of HOL.\<close>

record block =
  ptr :: pointer
  size_b :: size_t

text \<open>\<^verbatim>\<open>#define nullblock (block{nullptr, 0})\<close>\<close>

definition nullblock :: block where
  "nullblock = \<lparr>ptr = 0, size_b = 0\<rparr>"

text \<open>
  \<^verbatim>\<open>round_to_alignment\<close> divides by the alignment. With the alignment 0 the source divides
  by zero; the definition describes the source for every non-zero alignment, and the claims
  below that depend on a rounded size for an arbitrary alignment assume that the alignment
  is not zero (auxiliary lemmas that hold of the definition for every alignment are stated
  without the assumption).
\<close>

definition round_to_alignment :: "size_t \<Rightarrow> size_t \<Rightarrow> size_t" where
  "round_to_alignment sz alignment =
     sz + (if sz mod alignment = 0 then 0 else alignment - (sz mod alignment))"

definition is_aligned :: "size_t \<Rightarrow> size_t \<Rightarrow> bool" where
  "is_aligned sz alignment = (sz mod alignment = 0)"

section \<open>The allocator interface\<close>

text \<open>
  Every allocator of the library is a class with a compile-time \<^verbatim>\<open>alignment\<close>, the member
  functions \<^verbatim>\<open>allocate\<close>, \<^verbatim>\<open>deallocate\<close>, \<^verbatim>\<open>reallocate\<close> and, for some,
  \<^verbatim>\<open>owns\<close> and \<^verbatim>\<open>deallocateAll\<close>. A compositor is a template over its inner allocators.
  An inner allocator is modelled as a record of its operations over its state type \<open>'s\<close>;
  an operation takes the state and returns the new one. The block a C++ operation receives
  by reference is returned when the operation may rebind it (\<^verbatim>\<open>reallocate\<close>).

  The result \<open>None\<close> stands for an execution that does not return normally: a failed
  \<^verbatim>\<open>assert\<close>, an array access out of bounds, or a write through \<^verbatim>\<open>nullptr\<close>.

  The bytes stored in a block are not part of the model (\<^verbatim>\<open>copy_block\<close> and the
  \<^verbatim>\<open>memset\<close> of the stamp compositor change nothing else); the one exception is the link
  field of a free-list node, which the free-list reads back.
\<close>

record 's allocator =
  alignment :: size_t
  supports_truncated_deallocation :: bool
  allocate :: "'s \<Rightarrow> size_t \<Rightarrow> (block \<times> 's) option"
  deallocate :: "'s \<Rightarrow> block \<Rightarrow> 's option"
  reallocate :: "'s \<Rightarrow> block \<Rightarrow> size_t \<Rightarrow> (bool \<times> block \<times> 's) option"
  owns :: "'s \<Rightarrow> block \<Rightarrow> bool"
  deallocateAll :: "'s \<Rightarrow> 's option"

section \<open>Shared reallocation helpers (reallocation\_helpers.hpp)\<close>

text \<open>
  \<^verbatim>\<open>handle_common_reallocation_cases(allocator, b, newSize)\<close> uses the alignment, the
  \<^verbatim>\<open>deallocate\<close> and the \<^verbatim>\<open>allocate\<close> of the allocator it is given; they are its first
  three arguments here. The result is the returned flag, the block \<^verbatim>\<open>b\<close> after the call and
  the allocator's state after the call.
\<close>

definition handle_common_reallocation_cases ::
  "size_t \<Rightarrow> ('s \<Rightarrow> size_t \<Rightarrow> (block \<times> 's) option) \<Rightarrow> ('s \<Rightarrow> block \<Rightarrow> 's option) \<Rightarrow>
     's \<Rightarrow> block \<Rightarrow> size_t \<Rightarrow> (bool \<times> block \<times> 's) option" where
  "handle_common_reallocation_cases al alloc dealloc s b newSize =
     (if size_b b = round_to_alignment newSize al then Some (True, b, s)
      else if newSize = 0 then
        (case dealloc s b of None \<Rightarrow> None | Some s' \<Rightarrow> Some (True, b, s'))
      else if ptr b = 0 then
        (case alloc s newSize of None \<Rightarrow> None | Some (b', s') \<Rightarrow> Some (True, b', s'))
      else Some (False, b, s))"

text \<open>
  \<^verbatim>\<open>reallocate_and_copy(fromAllocator, toAllocator, b, newSize)\<close>: the two allocators may be
  two parts of one object (the two bases of a segregator), so both operations act on the
  state of the whole object.
\<close>

definition reallocate_and_copy ::
  "('s \<Rightarrow> block \<Rightarrow> 's option) \<Rightarrow> ('s \<Rightarrow> size_t \<Rightarrow> (block \<times> 's) option) \<Rightarrow>
     's \<Rightarrow> block \<Rightarrow> size_t \<Rightarrow> (bool \<times> block \<times> 's) option" where
  "reallocate_and_copy from_dealloc to_alloc s b newSize =
     (case to_alloc s newSize of
        None \<Rightarrow> None
      | Some (newBlock, s1) \<Rightarrow>
          if ptr newBlock = 0 then Some (False, b, s1)
          else (case from_dealloc s1 b of
                  None \<Rightarrow> None
                | Some s2 \<Rightarrow> Some (True, newBlock, s2)))"

section \<open>Buffer providers and the linear arena (buffer\_provider.hpp, linear\_allocator.hpp)\<close>

text \<open>
  A \<^verbatim>\<open>linear_allocator\<close> inherits from its buffer provider. The state of the object is the
  provider's buffer (\<^verbatim>\<open>buffer_\<close> and \<^verbatim>\<open>size()\<close>) and the cursor \<^verbatim>\<open>p_\<close>. Isabelle does not
  accept a name that ends with an underscore: the member \<^verbatim>\<open>buffer_\<close> is \<open>buffer\<close> here and
  \<^verbatim>\<open>p_\<close>, the pointer to the top of the stack, is \<open>p_top\<close>. For the stack provider
  \<open>buffer\<close> is the address of the array inside the object. An arena over the heap provider
  has one more part, the provider's own allocator (its private base), from which the buffer
  is taken: \<open>provider_allocator\<close>.
\<close>

record linear_allocator_state =
  buffer :: pointer
  buffer_size :: size_t
  p_top :: pointer

record 'h heap_linear_allocator_state = linear_allocator_state +
  provider_allocator :: 'h

datatype BufferInitMode = InitOnFirstAllocation | InitOnConstruct

definition is_lazy_init :: "BufferInitMode \<Rightarrow> bool" where
  "is_lazy_init initMode = (initMode = InitOnFirstAllocation)"

text \<open>\<^verbatim>\<open>dynamic_value = std::numeric_limits<size_t>::max()\<close> (range\_helpers.hpp): the size of
  a dynamically sized buffer that has not been set.\<close>

definition dynamic_value :: size_t where
  "dynamic_value = - 1"

definition is_dynamic_value :: "size_t \<Rightarrow> bool" where
  "is_dynamic_value v = (v = dynamic_value)"

text \<open>
  \<^verbatim>\<open>init(p_)\<close> of the two providers, acting on the arena: the stack provider's does nothing;
  the heap provider's, in the lazy mode and without a buffer, asserts that the size is
  set, takes the buffer from the provider's allocator (whose \<^verbatim>\<open>allocate\<close> is the argument
  \<open>provider_allocate\<close>) and makes the cursor point to it.
\<close>

definition stack_buffer_provider_init ::
  "'z linear_allocator_state_scheme \<Rightarrow> 'z linear_allocator_state_scheme option" where
  "stack_buffer_provider_init s = Some s"


text \<open>
  The constructors. \<^verbatim>\<open>linear_allocator()\<close> sets the cursor to the provider's buffer. The
  default constructor of the heap provider of a buffer of \<open>n\<close> bytes takes the buffer from
  its allocator \<open>h\<close> at once, unless the mode is lazy or the size dynamic.
\<close>

definition linear_allocator_ctor :: "pointer \<Rightarrow> size_t \<Rightarrow> linear_allocator_state" where
  "linear_allocator_ctor buf n = \<lparr>buffer = buf, buffer_size = n, p_top = buf\<rparr>"

definition heap_linear_allocator_ctor ::
  "BufferInitMode \<Rightarrow> ('h \<Rightarrow> size_t \<Rightarrow> (block \<times> 'h) option) \<Rightarrow> 'h \<Rightarrow> size_t \<Rightarrow>
     'h heap_linear_allocator_state option" where
  "heap_linear_allocator_ctor initMode provider_allocate h n =
     (if is_lazy_init initMode \<or> is_dynamic_value n
      then Some \<lparr>buffer = 0, buffer_size = n, p_top = 0, provider_allocator = h\<rparr>
      else
        (case provider_allocate h n of
           None \<Rightarrow> None
         | Some (b, h') \<Rightarrow>
             Some \<lparr>buffer = ptr b, buffer_size = n, p_top = ptr b, provider_allocator = h'\<rparr>))"

text \<open>
  The operations of \<^verbatim>\<open>linear_allocator\<close>. The template parameters enter as arguments:
  \<open>init\<close> is the \<^verbatim>\<open>init\<close> of the buffer provider and \<open>al\<close> is \<^verbatim>\<open>_Alignment\<close>.
\<close>

definition linear_begin :: "'z linear_allocator_state_scheme \<Rightarrow> pointer" where
  "linear_begin s = buffer s"

definition linear_end :: "'z linear_allocator_state_scheme \<Rightarrow> pointer" where
  "linear_end s = buffer s + buffer_size s"

definition hasEnoughSpace :: "'z linear_allocator_state_scheme \<Rightarrow> size_t \<Rightarrow> bool" where
  "hasEnoughSpace s alignedSize = (p_top s + alignedSize \<le> linear_end s)"

definition isLastAllocatedBlock :: "'z linear_allocator_state_scheme \<Rightarrow> block \<Rightarrow> bool" where
  "isLastAllocatedBlock s b = (ptr b + size_b b = p_top s)"

definition linear_allocator_allocate ::
  "('z linear_allocator_state_scheme \<Rightarrow> 'z linear_allocator_state_scheme option) \<Rightarrow> size_t \<Rightarrow>
     'z linear_allocator_state_scheme \<Rightarrow> size_t \<Rightarrow>
     (block \<times> 'z linear_allocator_state_scheme) option" where
  "linear_allocator_allocate init al s n =
     (let alignedSize = round_to_alignment n al in
      if \<not> hasEnoughSpace s alignedSize then Some (nullblock, s)
      else
        (case init s of
           None \<Rightarrow> None
         | Some s1 \<Rightarrow>
             Some (\<lparr>ptr = p_top s1, size_b = alignedSize\<rparr>,
                   s1\<lparr>p_top := p_top s1 + alignedSize\<rparr>)))"

definition linear_allocator_deallocate ::
  "'z linear_allocator_state_scheme \<Rightarrow> block \<Rightarrow> 'z linear_allocator_state_scheme option" where
  "linear_allocator_deallocate s b =
     (if isLastAllocatedBlock s b then Some (s\<lparr>p_top := ptr b\<rparr>) else Some s)"

definition linear_allocator_reallocate ::
  "('z linear_allocator_state_scheme \<Rightarrow> 'z linear_allocator_state_scheme option) \<Rightarrow> size_t \<Rightarrow>
     'z linear_allocator_state_scheme \<Rightarrow> block \<Rightarrow> size_t \<Rightarrow>
     (bool \<times> block \<times> 'z linear_allocator_state_scheme) option" where
  "linear_allocator_reallocate init al s b newSize =
     (case handle_common_reallocation_cases al (linear_allocator_allocate init al)
             linear_allocator_deallocate s b newSize of
        None \<Rightarrow> None
      | Some (True, b', s') \<Rightarrow> Some (True, b', s')
      | Some (False, b', s') \<Rightarrow>
          (let alignedNewSize = round_to_alignment newSize al in
           if isLastAllocatedBlock s' b' then
             (if ptr b' + alignedNewSize \<le> linear_end s'
              then Some (True, b', s'\<lparr>p_top := ptr b' + alignedNewSize\<rparr>)
              else Some (False, b', s'))
           else if size_b b' \<ge> alignedNewSize then Some (True, b', s')
           else reallocate_and_copy linear_allocator_deallocate
                  (linear_allocator_allocate init al) s' b' newSize))"

definition linear_allocator_owns :: "'z linear_allocator_state_scheme \<Rightarrow> block \<Rightarrow> bool" where
  "linear_allocator_owns s b = (linear_begin s \<le> ptr b \<and> ptr b < linear_end s)"

definition linear_allocator_deallocateAll ::
  "'z linear_allocator_state_scheme \<Rightarrow> 'z linear_allocator_state_scheme option" where
  "linear_allocator_deallocateAll s = Some (s\<lparr>p_top := buffer s\<rparr>)"

text \<open>The linear arena as an inner allocator of a compositor.\<close>

definition linear_allocator ::
  "('z linear_allocator_state_scheme \<Rightarrow> 'z linear_allocator_state_scheme option) \<Rightarrow> size_t \<Rightarrow>
     'z linear_allocator_state_scheme allocator" where
  "linear_allocator init al =
     \<lparr>alignment = al,
      supports_truncated_deallocation = True,
      allocate = linear_allocator_allocate init al,
      deallocate = linear_allocator_deallocate,
      reallocate = linear_allocator_reallocate init al,
      owns = linear_allocator_owns,
      deallocateAll = linear_allocator_deallocateAll\<rparr>"

text \<open>
  The two shortcuts of the source: \<^verbatim>\<open>stack_linear_allocator<_BufferSize, _Alignment>\<close>, the
  arena over the stack provider, and \<^verbatim>\<open>heap_linear_allocator<_BufferSize, _Alignment,
  _InitMode, _Allocator>\<close>, the arena over the heap provider.
\<close>

definition stack_linear_allocator :: "size_t \<Rightarrow> linear_allocator_state allocator" where
  "stack_linear_allocator al = linear_allocator stack_buffer_provider_init al"


section \<open>Mallocator (mallocator.hpp)\<close>

text \<open>
  The system heap (\<^verbatim>\<open>malloc\<close>, \<^verbatim>\<open>free\<close>, \<^verbatim>\<open>realloc\<close>) is not part of the library. It is a
  parameter: a record of the three routines over a heap state \<open>'h\<close>, each returning the new
  heap state; \<^verbatim>\<open>malloc\<close> and \<^verbatim>\<open>realloc\<close> return the null address on failure.
\<close>

record 'h system_heap =
  malloc :: "'h \<Rightarrow> size_t \<Rightarrow> pointer \<times> 'h"
  free :: "'h \<Rightarrow> pointer \<Rightarrow> 'h"
  realloc :: "'h \<Rightarrow> pointer \<Rightarrow> size_t \<Rightarrow> pointer \<times> 'h"

text \<open>\<^verbatim>\<open>static constexpr auto alignment = 8_B;\<close>\<close>

definition mallocator_alignment :: size_t where
  "mallocator_alignment = 8"

definition mallocator_allocate ::
  "'h system_heap \<Rightarrow> 'h \<Rightarrow> size_t \<Rightarrow> (block \<times> 'h) option" where
  "mallocator_allocate H h n =
     (case malloc H h n of (p, h') \<Rightarrow> Some (\<lparr>ptr = p, size_b = n\<rparr>, h'))"

definition mallocator_deallocate :: "'h system_heap \<Rightarrow> 'h \<Rightarrow> block \<Rightarrow> 'h option" where
  "mallocator_deallocate H h b = Some (free H h (ptr b))"

definition mallocator_reallocate ::
  "'h system_heap \<Rightarrow> 'h \<Rightarrow> block \<Rightarrow> size_t \<Rightarrow> (bool \<times> block \<times> 'h) option" where
  "mallocator_reallocate H h b newSize =
     (case handle_common_reallocation_cases mallocator_alignment (mallocator_allocate H)
             (mallocator_deallocate H) h b newSize of
        None \<Rightarrow> None
      | Some (True, b', h') \<Rightarrow> Some (True, b', h')
      | Some (False, b', h') \<Rightarrow>
          (case realloc H h' (ptr b') newSize of
             (p, h'') \<Rightarrow>
               if p \<noteq> 0 then Some (True, \<lparr>ptr = p, size_b = newSize\<rparr>, h'')
               else Some (False, b', h'')))"

text \<open>
  A system heap for the examples below. Its state is the next free address; \<^verbatim>\<open>malloc\<close> hands
  out that address and moves on to the next multiple of 16 behind the request, \<^verbatim>\<open>free\<close> does
  nothing and \<^verbatim>\<open>realloc\<close> hands out a new region.
\<close>

definition example_heap :: "pointer system_heap" where
  "example_heap =
     \<lparr>malloc = (\<lambda>h n. (h, h + round_to_alignment n 16)),
      free = (\<lambda>h p. h),
      realloc = (\<lambda>h p n. (h, h + round_to_alignment n 16))\<rparr>"

section \<open>Free-list (freelist.hpp)\<close>

text \<open>
  A \<^verbatim>\<open>freelist\<close> inherits from its inner allocator and from its range. Its state is the
  state of the inner allocator, the two bounds of the range (constants for a static range,
  set by \<^verbatim>\<open>setMinMax\<close> for a dynamic one), the head \<^verbatim>\<open>pHead_\<close> and the counter
  \<^verbatim>\<open>currentNodeCount_\<close>. A node is written inside the freed block: \<open>node_next\<close> is the part
  of memory that holds the \<^verbatim>\<open>pNext_\<close> field of the node at each address.
  The template parameters are the inner allocator \<open>A\<close>, \<^verbatim>\<open>_MaxNodeCount\<close> and
  \<^verbatim>\<open>_BatchedAllocations\<close>.
\<close>

record 's freelist_state =
  fl_inner :: 's
  range_min :: size_t
  range_max :: size_t
  pHead :: pointer
  currentNodeCount :: size_t
  node_next :: "pointer \<Rightarrow> pointer"

definition freelist_ctor :: "'s \<Rightarrow> size_t \<Rightarrow> size_t \<Rightarrow> 's freelist_state" where
  "freelist_ctor a lo hi =
     \<lparr>fl_inner = a, range_min = lo, range_max = hi, pHead = 0, currentNodeCount = 0,
      node_next = (\<lambda>p. 0)\<rparr>"

text \<open>\<^verbatim>\<open>sizeof(node)\<close>: a node is one pointer.\<close>

definition sizeof_freelist_node :: size_t where
  "sizeof_freelist_node = 8"

definition freelist_setMinMax ::
  "'s freelist_state \<Rightarrow> size_t \<Rightarrow> size_t \<Rightarrow> 's freelist_state option" where
  "freelist_setMinMax s minSize maxSize =
     (if maxSize \<ge> sizeof_freelist_node
      then Some (s\<lparr>range_min := minSize, range_max := maxSize\<rparr>)
      else None)"

definition freelist_isGoodSize :: "'s freelist_state \<Rightarrow> size_t \<Rightarrow> bool" where
  "freelist_isGoodSize s n = (range_min s \<le> n \<and> n \<le> range_max s)"

definition isFull :: "size_t \<Rightarrow> 's freelist_state \<Rightarrow> bool" where
  "isFull MaxNodeCount s = (currentNodeCount s = MaxNodeCount)"

text \<open>\<^verbatim>\<open>pushNode\<close> starts with \<^verbatim>\<open>assert(ptr != nullptr)\<close>.\<close>

definition pushNode :: "'s freelist_state \<Rightarrow> pointer \<Rightarrow> 's freelist_state option" where
  "pushNode s p =
     (if p = 0 then None
      else Some (s\<lparr>node_next := (node_next s)(p := pHead s),
                   pHead := p,
                   currentNodeCount := currentNodeCount s + 1\<rparr>))"

definition popNode :: "'s freelist_state \<Rightarrow> pointer \<times> 's freelist_state" where
  "popNode s =
     (if pHead s \<noteq> 0
      then (pHead s, s\<lparr>pHead := node_next s (pHead s),
                        currentNodeCount := currentNodeCount s - 1\<rparr>)
      else (0, s))"

text \<open>The inner allocator's \<^verbatim>\<open>allocate\<close> and \<^verbatim>\<open>deallocate\<close>, called on the base object.\<close>

definition freelist_inner_allocate ::
  "'s allocator \<Rightarrow> 's freelist_state \<Rightarrow> size_t \<Rightarrow> (block \<times> 's freelist_state) option" where
  "freelist_inner_allocate A s n =
     (case allocate A (fl_inner s) n of
        None \<Rightarrow> None
      | Some (b, a') \<Rightarrow> Some (b, s\<lparr>fl_inner := a'\<rparr>))"

definition freelist_inner_deallocate ::
  "'s allocator \<Rightarrow> 's freelist_state \<Rightarrow> block \<Rightarrow> 's freelist_state option" where
  "freelist_inner_deallocate A s b =
     (case deallocate A (fl_inner s) b of
        None \<Rightarrow> None
      | Some a' \<Rightarrow> Some (s\<lparr>fl_inner := a'\<rparr>))"

text \<open>
  The first loop of \<^verbatim>\<open>tryPopulateFreeList\<close>: push the pieces \<open>i\<close>, \<open>i + 1\<close>, ... of the batch
  block; the second argument from the right counts the iterations left.
\<close>

fun push_batch ::
  "pointer \<Rightarrow> size_t \<Rightarrow> size_t \<Rightarrow> nat \<Rightarrow> 's freelist_state \<Rightarrow> 's freelist_state option" where
  "push_batch base blockSize i 0 s = Some s"
| "push_batch base blockSize i (Suc k) s =
     (case pushNode s (base + i * blockSize) of
        None \<Rightarrow> None
      | Some s' \<Rightarrow> push_batch base blockSize (i + 1) k s')"

text \<open>The second loop: allocate the blocks one by one and stop at the first failure.\<close>

fun push_singles ::
  "'s allocator \<Rightarrow> size_t \<Rightarrow> nat \<Rightarrow> 's freelist_state \<Rightarrow> 's freelist_state option" where
  "push_singles A blockSize 0 s = Some s"
| "push_singles A blockSize (Suc k) s =
     (case freelist_inner_allocate A s blockSize of
        None \<Rightarrow> None
      | Some (b, s') \<Rightarrow>
          if ptr b \<noteq> 0
          then (case pushNode s' (ptr b) of
                  None \<Rightarrow> None
                | Some s'' \<Rightarrow> push_singles A blockSize k s'')
          else Some s')"

definition tryPopulateFreeList ::
  "'s allocator \<Rightarrow> size_t \<Rightarrow> size_t \<Rightarrow> 's freelist_state \<Rightarrow> 's freelist_state option" where
  "tryPopulateFreeList A MaxNodeCount BatchedAllocations s =
     (let blockSize = range_max s;
          numBlocks = min BatchedAllocations (MaxNodeCount - currentNodeCount s)
      in if supports_truncated_deallocation A then
           (case freelist_inner_allocate A s (numBlocks * blockSize) of
              None \<Rightarrow> None
            | Some (batchBlock, s') \<Rightarrow>
                if ptr batchBlock \<noteq> 0
                then push_batch (ptr batchBlock) blockSize 0 (unat numBlocks) s'
                else push_singles A blockSize (unat numBlocks) s')
         else push_singles A blockSize (unat numBlocks) s)"

definition freelist_allocate ::
  "'s allocator \<Rightarrow> size_t \<Rightarrow> size_t \<Rightarrow> 's freelist_state \<Rightarrow> size_t \<Rightarrow>
     (block \<times> 's freelist_state) option" where
  "freelist_allocate A MaxNodeCount BatchedAllocations s n =
     (let alignedSize = round_to_alignment n (alignment A) in
      if freelist_isGoodSize s alignedSize then
        (case (if pHead s = 0 then tryPopulateFreeList A MaxNodeCount BatchedAllocations s
               else Some s) of
           None \<Rightarrow> None
         | Some s1 \<Rightarrow>
             (case popNode s1 of
                (p, s2) \<Rightarrow>
                  if p \<noteq> 0 then Some (\<lparr>ptr = p, size_b = range_max s2\<rparr>, s2)
                  else freelist_inner_allocate A s2 alignedSize))
      else freelist_inner_allocate A s alignedSize)"

definition freelist_deallocate ::
  "'s allocator \<Rightarrow> size_t \<Rightarrow> 's freelist_state \<Rightarrow> block \<Rightarrow> 's freelist_state option" where
  "freelist_deallocate A MaxNodeCount s b =
     (if \<not> isFull MaxNodeCount s \<and> size_b b = range_max s
      then pushNode s (ptr b)
      else freelist_inner_deallocate A s b)"

text \<open>
  \<^verbatim>\<open>reallocate\<close> declares its block \<^verbatim>\<open>const block &b\<close> and passes it on to the two helpers,
  which take a \<^verbatim>\<open>block &\<close>. The model follows the body: \<open>b\<close> is the block the helpers
  leave behind.
\<close>

definition freelist_reallocate ::
  "'s allocator \<Rightarrow> size_t \<Rightarrow> size_t \<Rightarrow> 's freelist_state \<Rightarrow> block \<Rightarrow> size_t \<Rightarrow>
     (bool \<times> block \<times> 's freelist_state) option" where
  "freelist_reallocate A MaxNodeCount BatchedAllocations s b newSize =
     (case handle_common_reallocation_cases (alignment A)
             (freelist_allocate A MaxNodeCount BatchedAllocations)
             (freelist_deallocate A MaxNodeCount) s b newSize of
        None \<Rightarrow> None
      | Some (True, b', s') \<Rightarrow> Some (True, b', s')
      | Some (False, b', s') \<Rightarrow>
          (let alignedNewSize = round_to_alignment newSize (alignment A) in
           if freelist_isGoodSize s' alignedNewSize then Some (True, b', s')
           else reallocate_and_copy (freelist_deallocate A MaxNodeCount)
                  (freelist_allocate A MaxNodeCount BatchedAllocations) s' b' newSize))"

section \<open>Bit helpers (bit\_helpers.hpp)\<close>

text \<open>\<^verbatim>\<open>details::last_bit_set(v)\<close>: the number of bits up to the highest one set.\<close>

function details_last_bit_set :: "size_t \<Rightarrow> size_t" where
  "details_last_bit_set v =
     (if v \<noteq> 0 then 1 + details_last_bit_set (drop_bit 1 v) else 0)"
  by pat_completeness auto
termination
proof (relation "measure unat")
  show "wf (measure (unat :: size_t \<Rightarrow> nat))"
    by simp
next
  fix v :: size_t
  assume "v \<noteq> 0"
  then have "0 < unat v"
    by (simp add: unat_gt_0)
  then have "unat v div 2 < unat v"
    by simp
  then show "(drop_bit 1 v, v) \<in> measure unat"
    by (simp add: drop_bit_eq_div unat_div)
qed

declare details_last_bit_set.simps [simp del]

definition is_pow2 :: "size_t \<Rightarrow> bool" where
  "is_pow2 v = (v > 0 \<and> v AND (v - 1) = 0)"

definition last_bit_set :: "size_t \<Rightarrow> size_t" where
  "last_bit_set v = (if v \<noteq> 0 then details_last_bit_set v - 1 else 0)"

text \<open>
  \<^verbatim>\<open>1ull << k\<close> is \<open>push_bit k 1\<close> for \<open>k < 64\<close>. For a value from \<open>2^63\<close> on that is not a
  power of two the source shifts by 64, which C++ leaves undefined; the definition
  describes \<^verbatim>\<open>next_pow2\<close> below \<open>2^63\<close>, and no property below evaluates it elsewhere.
\<close>

definition next_pow2 :: "size_t \<Rightarrow> size_t" where
  "next_pow2 v = (if is_pow2 v then v else push_bit (unat (last_bit_set v + 1)) 1)"

section \<open>Ranges and raiders (range\_helpers.hpp)\<close>

text \<open>\<^verbatim>\<open>invalid_index = std::numeric_limits<size_t>::max()\<close>\<close>

definition invalid_index :: size_t where
  "invalid_index = - 1"

text \<open>\<^verbatim>\<open>range_t<_Min, _Max>::is_in_range\<close>\<close>

definition is_in_range :: "size_t \<Rightarrow> size_t \<Rightarrow> size_t \<Rightarrow> bool" where
  "is_in_range lo hi val = (lo \<le> val \<and> val \<le> hi)"

text \<open>
  A raider, as the bucketizer uses it: the bounds \<^verbatim>\<open>min()\<close> and \<^verbatim>\<open>max()\<close> of its range,
  \<^verbatim>\<open>num_steps\<close>, \<^verbatim>\<open>step_index\<close> and \<^verbatim>\<open>step_size\<close>.
\<close>

record range_raider =
  raider_min :: size_t
  raider_max :: size_t
  num_steps :: size_t
  step_index :: "size_t \<Rightarrow> size_t"
  step_size :: "size_t \<Rightarrow> size_t"

text \<open>\<^verbatim>\<open>linear_range_raider<_Min, _Max, _Step>\<close>, with \<open>lo\<close>, \<open>hi\<close> and \<open>step\<close> for the three
  template parameters\<close>

definition linear_num_steps :: "size_t \<Rightarrow> size_t \<Rightarrow> size_t \<Rightarrow> size_t" where
  "linear_num_steps lo hi step = (hi - lo) div step"

definition linear_step_index :: "size_t \<Rightarrow> size_t \<Rightarrow> size_t \<Rightarrow> size_t \<Rightarrow> size_t" where
  "linear_step_index lo hi step val =
     (if is_in_range lo hi val then (val - lo) div step else invalid_index)"

definition linear_step_size :: "size_t \<Rightarrow> size_t \<Rightarrow> size_t \<Rightarrow> size_t \<Rightarrow> size_t" where
  "linear_step_size lo hi step i = step"

definition linear_range_raider :: "size_t \<Rightarrow> size_t \<Rightarrow> size_t \<Rightarrow> range_raider" where
  "linear_range_raider lo hi step =
     \<lparr>raider_min = lo, raider_max = hi,
      num_steps = linear_num_steps lo hi step,
      step_index = linear_step_index lo hi step,
      step_size = linear_step_size lo hi step\<rparr>"

text \<open>The static assertions of \<^verbatim>\<open>range_t\<close> and of \<^verbatim>\<open>linear_range_raider\<close>; the second one
  divides by \<^verbatim>\<open>_Step\<close> in a constant expression, which rules out a zero step.\<close>

definition linear_range_raider_asserts :: "size_t \<Rightarrow> size_t \<Rightarrow> size_t \<Rightarrow> bool" where
  "linear_range_raider_asserts lo hi step =
     (lo \<le> hi \<and> hi - lo > 0 \<and> step > 0 \<and> (hi - lo) mod step = 0)"

text \<open>\<^verbatim>\<open>pow2_range_raider<_Min, _Max>\<close>\<close>

definition pow2bit_min_index :: "size_t \<Rightarrow> size_t" where
  "pow2bit_min_index lo = last_bit_set lo"

definition pow2bit_max_index :: "size_t \<Rightarrow> size_t" where
  "pow2bit_max_index hi = last_bit_set hi"

definition pow2_num_steps :: "size_t \<Rightarrow> size_t \<Rightarrow> size_t" where
  "pow2_num_steps lo hi = pow2bit_max_index hi - pow2bit_min_index lo"

definition pow2_step_index :: "size_t \<Rightarrow> size_t \<Rightarrow> size_t \<Rightarrow> size_t" where
  "pow2_step_index lo hi val = last_bit_set (next_pow2 val) - pow2bit_min_index lo - 1"

definition pow2_step_size :: "size_t \<Rightarrow> size_t \<Rightarrow> size_t \<Rightarrow> size_t" where
  "pow2_step_size lo hi stepIndex = push_bit (unat (pow2bit_min_index lo + stepIndex)) 1"

definition pow2_range_raider :: "size_t \<Rightarrow> size_t \<Rightarrow> range_raider" where
  "pow2_range_raider lo hi =
     \<lparr>raider_min = lo, raider_max = hi,
      num_steps = pow2_num_steps lo hi,
      step_index = pow2_step_index lo hi,
      step_size = pow2_step_size lo hi\<rparr>"

definition pow2_range_raider_asserts :: "size_t \<Rightarrow> size_t \<Rightarrow> bool" where
  "pow2_range_raider_asserts lo hi = (lo \<le> hi \<and> is_pow2 lo \<and> is_pow2 hi)"

section \<open>Bucketizer (bucketizer.hpp)\<close>

text \<open>
  The state of a \<^verbatim>\<open>bucketizer\<close> is the array \<^verbatim>\<open>buckets_\<close> of \<^verbatim>\<open>num_buckets\<close> inner
  allocators, a list of their states. Reading \<^verbatim>\<open>buckets_[i]\<close> with \<open>i\<close> past the end of
  the array is an access out of bounds: the operation does not return normally.

  The constructor walks over the buckets and gives bucket \<open>i\<close> the bounds
  \<^verbatim>\<open>(currentBucketMinSize + (i ? 1 : 0), currentBucketMinSize + stepSize)\<close>;
  \<open>bucket_bounds\<close> lists these pairs (\<open>k\<close> counts the buckets left).
\<close>

fun bucket_bounds_from :: "range_raider \<Rightarrow> size_t \<Rightarrow> size_t \<Rightarrow> nat \<Rightarrow> (size_t \<times> size_t) list" where
  "bucket_bounds_from R i currentBucketMinSize 0 = []"
| "bucket_bounds_from R i currentBucketMinSize (Suc k) =
     (let stepSize = step_size R i in
      (currentBucketMinSize + (if i \<noteq> 0 then 1 else 0), currentBucketMinSize + stepSize)
        # bucket_bounds_from R (i + 1) (currentBucketMinSize + stepSize) k)"

definition bucket_bounds :: "range_raider \<Rightarrow> (size_t \<times> size_t) list" where
  "bucket_bounds R = bucket_bounds_from R 0 (raider_min R) (unat (num_steps R))"

definition bucketizer_isGoodSize :: "range_raider \<Rightarrow> size_t \<Rightarrow> bool" where
  "bucketizer_isGoodSize R n = (raider_min R \<le> n \<and> n \<le> raider_max R)"

definition bucketIndex :: "range_raider \<Rightarrow> size_t \<Rightarrow> size_t" where
  "bucketIndex R n = step_index R n"

text \<open>\<^verbatim>\<open>buckets_[i].allocate(size)\<close>, \<^verbatim>\<open>buckets_[i].deallocate(b)\<close>,
  \<^verbatim>\<open>buckets_[i].reallocate(b, newSize)\<close>\<close>

definition bucket_allocate ::
  "'s allocator \<Rightarrow> size_t \<Rightarrow> 's list \<Rightarrow> size_t \<Rightarrow> (block \<times> 's list) option" where
  "bucket_allocate A i buckets n =
     (if unat i < length buckets then
        (case allocate A (buckets ! unat i) n of
           None \<Rightarrow> None
         | Some (b, a') \<Rightarrow> Some (b, buckets[unat i := a']))
      else None)"

definition bucket_deallocate ::
  "'s allocator \<Rightarrow> size_t \<Rightarrow> 's list \<Rightarrow> block \<Rightarrow> 's list option" where
  "bucket_deallocate A i buckets b =
     (if unat i < length buckets then
        (case deallocate A (buckets ! unat i) b of
           None \<Rightarrow> None
         | Some a' \<Rightarrow> Some (buckets[unat i := a']))
      else None)"

definition bucket_reallocate ::
  "'s allocator \<Rightarrow> size_t \<Rightarrow> 's list \<Rightarrow> block \<Rightarrow> size_t \<Rightarrow> (bool \<times> block \<times> 's list) option" where
  "bucket_reallocate A i buckets b newSize =
     (if unat i < length buckets then
        (case reallocate A (buckets ! unat i) b newSize of
           None \<Rightarrow> None
         | Some (r, b', a') \<Rightarrow> Some (r, b', buckets[unat i := a']))
      else None)"

definition bucketizer_allocate ::
  "'s allocator \<Rightarrow> range_raider \<Rightarrow> 's list \<Rightarrow> size_t \<Rightarrow> (block \<times> 's list) option" where
  "bucketizer_allocate A R buckets n =
     (if bucketizer_isGoodSize R n then bucket_allocate A (bucketIndex R n) buckets n
      else Some (\<lparr>ptr = 0, size_b = 0\<rparr>, buckets))"

definition bucketizer_deallocate ::
  "'s allocator \<Rightarrow> range_raider \<Rightarrow> 's list \<Rightarrow> block \<Rightarrow> 's list option" where
  "bucketizer_deallocate A R buckets b =
     (if bucketizer_isGoodSize R (size_b b)
      then bucket_deallocate A (bucketIndex R (size_b b)) buckets b
      else Some buckets)"

definition bucketizer_reallocate ::
  "'s allocator \<Rightarrow> range_raider \<Rightarrow> 's list \<Rightarrow> block \<Rightarrow> size_t \<Rightarrow>
     (bool \<times> block \<times> 's list) option" where
  "bucketizer_reallocate A R buckets b newSize =
     (if \<not> bucketizer_isGoodSize R newSize then Some (False, b, buckets)
      else
        (case handle_common_reallocation_cases (alignment A) (bucketizer_allocate A R)
                (bucketizer_deallocate A R) buckets b newSize of
           None \<Rightarrow> None
         | Some (True, b', buckets') \<Rightarrow> Some (True, b', buckets')
         | Some (False, b', buckets') \<Rightarrow>
             (let oldBucketIndex = bucketIndex R (size_b b');
                  newBucketIndex = bucketIndex R newSize
              in if oldBucketIndex = newBucketIndex
                 then bucket_reallocate A newBucketIndex buckets' b' newSize
                 else reallocate_and_copy (bucket_deallocate A oldBucketIndex)
                        (bucket_allocate A newBucketIndex) buckets' b' newSize)))"

definition bucketizer_owns ::
  "'s allocator \<Rightarrow> range_raider \<Rightarrow> 's list \<Rightarrow> block \<Rightarrow> bool option" where
  "bucketizer_owns A R buckets b =
     (if bucketizer_isGoodSize R (size_b b) then
        (if unat (bucketIndex R (size_b b)) < length buckets
         then Some (owns A (buckets ! unat (bucketIndex R (size_b b))) b)
         else None)
      else Some False)"

section \<open>Segregator (segregator.hpp)\<close>

text \<open>
  A \<^verbatim>\<open>segregator\<close> inherits from its small and from its large allocator: its state is the
  pair of their states. A call \<^verbatim>\<open>_SmallAllocator::f\<close> acts on the first component and
  leaves the second one alone; \<^verbatim>\<open>_LargeAllocator::f\<close> the other way round.
  \<^verbatim>\<open>const_max\<close> is not among the sources; it is read as the maximum of its arguments.
\<close>

definition small_allocate ::
  "'a allocator \<Rightarrow> 'a \<times> 'b \<Rightarrow> size_t \<Rightarrow> (block \<times> 'a \<times> 'b) option" where
  "small_allocate S st n =
     (case allocate S (fst st) n of
        None \<Rightarrow> None
      | Some (b, a') \<Rightarrow> Some (b, (a', snd st)))"

definition large_allocate ::
  "'b allocator \<Rightarrow> 'a \<times> 'b \<Rightarrow> size_t \<Rightarrow> (block \<times> 'a \<times> 'b) option" where
  "large_allocate L st n =
     (case allocate L (snd st) n of
        None \<Rightarrow> None
      | Some (b, l') \<Rightarrow> Some (b, (fst st, l')))"

definition small_deallocate :: "'a allocator \<Rightarrow> 'a \<times> 'b \<Rightarrow> block \<Rightarrow> ('a \<times> 'b) option" where
  "small_deallocate S st b =
     (case deallocate S (fst st) b of
        None \<Rightarrow> None
      | Some a' \<Rightarrow> Some (a', snd st))"

definition large_deallocate :: "'b allocator \<Rightarrow> 'a \<times> 'b \<Rightarrow> block \<Rightarrow> ('a \<times> 'b) option" where
  "large_deallocate L st b =
     (case deallocate L (snd st) b of
        None \<Rightarrow> None
      | Some l' \<Rightarrow> Some (fst st, l'))"

definition small_reallocate ::
  "'a allocator \<Rightarrow> 'a \<times> 'b \<Rightarrow> block \<Rightarrow> size_t \<Rightarrow> (bool \<times> block \<times> 'a \<times> 'b) option" where
  "small_reallocate S st b newSize =
     (case reallocate S (fst st) b newSize of
        None \<Rightarrow> None
      | Some (r, b', a') \<Rightarrow> Some (r, b', (a', snd st)))"

definition large_reallocate ::
  "'b allocator \<Rightarrow> 'a \<times> 'b \<Rightarrow> block \<Rightarrow> size_t \<Rightarrow> (bool \<times> block \<times> 'a \<times> 'b) option" where
  "large_reallocate L st b newSize =
     (case reallocate L (snd st) b newSize of
        None \<Rightarrow> None
      | Some (r, b', l') \<Rightarrow> Some (r, b', (fst st, l')))"

definition segregator_alignment :: "'a allocator \<Rightarrow> 'b allocator \<Rightarrow> size_t" where
  "segregator_alignment S L = max (alignment S) (alignment L)"

definition segregator_allocate ::
  "size_t \<Rightarrow> 'a allocator \<Rightarrow> 'b allocator \<Rightarrow> 'a \<times> 'b \<Rightarrow> size_t \<Rightarrow>
     (block \<times> 'a \<times> 'b) option" where
  "segregator_allocate Threshold S L st n =
     (if n \<le> Threshold then small_allocate S st n else large_allocate L st n)"

definition segregator_deallocate ::
  "size_t \<Rightarrow> 'a allocator \<Rightarrow> 'b allocator \<Rightarrow> 'a \<times> 'b \<Rightarrow> block \<Rightarrow> ('a \<times> 'b) option" where
  "segregator_deallocate Threshold S L st b =
     (if size_b b \<le> Threshold then small_deallocate S st b else large_deallocate L st b)"

definition segregator_reallocate ::
  "size_t \<Rightarrow> 'a allocator \<Rightarrow> 'b allocator \<Rightarrow> 'a \<times> 'b \<Rightarrow> block \<Rightarrow> size_t \<Rightarrow>
     (bool \<times> block \<times> 'a \<times> 'b) option" where
  "segregator_reallocate Threshold S L st b newSize =
     (case handle_common_reallocation_cases (segregator_alignment S L)
             (segregator_allocate Threshold S L) (segregator_deallocate Threshold S L)
             st b newSize of
        None \<Rightarrow> None
      | Some (True, b', st') \<Rightarrow> Some (True, b', st')
      | Some (False, b', st') \<Rightarrow>
          if size_b b' \<le> Threshold then
            (if newSize \<le> Threshold then small_reallocate S st' b' newSize
             else reallocate_and_copy (small_deallocate S) (large_allocate L) st' b' newSize)
          else if newSize \<le> Threshold
          then reallocate_and_copy (large_deallocate L) (small_allocate S) st' b' newSize
          else large_reallocate L st' b' newSize)"

definition segregator_owns ::
  "size_t \<Rightarrow> 'a allocator \<Rightarrow> 'b allocator \<Rightarrow> 'a \<times> 'b \<Rightarrow> block \<Rightarrow> bool" where
  "segregator_owns Threshold S L st b =
     (if size_b b \<le> Threshold then owns S (fst st) b else owns L (snd st) b)"

section \<open>Affix allocator (affix\_allocator.hpp)\<close>

text \<open>
  An \<^verbatim>\<open>affix_allocator\<close> inherits from its inner allocator \<open>A\<close>; its state is the inner
  state. The template parameters \<^verbatim>\<open>_Prefix\<close> and \<^verbatim>\<open>_Suffix\<close> enter through their sizes:
  \<open>None\<close> is the placeholder \<^verbatim>\<open>no_affix\<close>, \<open>Some n\<close> a type with \<^verbatim>\<open>sizeof\<close> equal to \<open>n\<close>.
\<close>

definition affix_size :: "'s allocator \<Rightarrow> size_t option \<Rightarrow> size_t" where
  "affix_size A affix =
     (case affix of None \<Rightarrow> 0 | Some n \<Rightarrow> round_to_alignment n (alignment A))"

text \<open>\<^verbatim>\<open>static_assert(!(prefix_size == 0 && suffix_size == 0))\<close>\<close>

definition affix_allocator_asserts :: "'s allocator \<Rightarrow> size_t option \<Rightarrow> size_t option \<Rightarrow> bool" where
  "affix_allocator_asserts A Prefix Suffix =
     (\<not> (affix_size A Prefix = 0 \<and> affix_size A Suffix = 0))"

definition toAffixedBlock :: "size_t \<Rightarrow> size_t \<Rightarrow> block \<Rightarrow> block" where
  "toAffixedBlock prefix_size suffix_size strippedBlock =
     \<lparr>ptr = ptr strippedBlock - prefix_size,
      size_b = prefix_size + size_b strippedBlock + suffix_size\<rparr>"

definition toStrippedBlock :: "size_t \<Rightarrow> size_t \<Rightarrow> block \<Rightarrow> block" where
  "toStrippedBlock prefix_size suffix_size affixedBlock =
     \<lparr>ptr = ptr affixedBlock + prefix_size,
      size_b = size_b affixedBlock - prefix_size - suffix_size\<rparr>"

definition affix_allocator_allocate ::
  "'s allocator \<Rightarrow> size_t option \<Rightarrow> size_t option \<Rightarrow> 's \<Rightarrow> size_t \<Rightarrow> (block \<times> 's) option" where
  "affix_allocator_allocate A Prefix Suffix s n =
     (let affixedSize = affix_size A Prefix + n + affix_size A Suffix in
      case allocate A s affixedSize of
        None \<Rightarrow> None
      | Some (affixedBlock, s') \<Rightarrow>
          Some (toStrippedBlock (affix_size A Prefix) (affix_size A Suffix) affixedBlock, s'))"

definition affix_allocator_deallocate ::
  "'s allocator \<Rightarrow> size_t option \<Rightarrow> size_t option \<Rightarrow> 's \<Rightarrow> block \<Rightarrow> 's option" where
  "affix_allocator_deallocate A Prefix Suffix s strippedBlock =
     deallocate A s (toAffixedBlock (affix_size A Prefix) (affix_size A Suffix) strippedBlock)"

definition affix_allocator_reallocate ::
  "'s allocator \<Rightarrow> size_t option \<Rightarrow> size_t option \<Rightarrow> 's \<Rightarrow> block \<Rightarrow> size_t \<Rightarrow>
     (bool \<times> block \<times> 's) option" where
  "affix_allocator_reallocate A Prefix Suffix s strippedBlock newSize =
     (case handle_common_reallocation_cases (alignment A)
             (affix_allocator_allocate A Prefix Suffix)
             (affix_allocator_deallocate A Prefix Suffix) s strippedBlock newSize of
        None \<Rightarrow> None
      | Some (True, b', s') \<Rightarrow> Some (True, b', s')
      | Some (False, b', s') \<Rightarrow>
          reallocate_and_copy (affix_allocator_deallocate A Prefix Suffix)
            (affix_allocator_allocate A Prefix Suffix) s' b' newSize)"

definition affix_allocator_owns ::
  "'s allocator \<Rightarrow> size_t option \<Rightarrow> size_t option \<Rightarrow> 's \<Rightarrow> block \<Rightarrow> bool" where
  "affix_allocator_owns A Prefix Suffix s strippedBlock =
     owns A s (toAffixedBlock (affix_size A Prefix) (affix_size A Suffix) strippedBlock)"

section \<open>Cascading allocator (cascading\_allocator.hpp)\<close>

text \<open>
  The nodes of a \<^verbatim>\<open>cascading_allocator\<close> form a singly linked list from \<^verbatim>\<open>pHead_\<close>. The list
  \<open>nodes\<close> holds them in that order: each entry is the address of a node and the state of
  the allocator \<^verbatim>\<open>allocator_\<close> stored in it; \<^verbatim>\<open>pNext_\<close> of an entry is the address of the
  next entry, \<^verbatim>\<open>nullptr\<close> for the last one. \<open>nodeAllocatedSize\<close> is the member
  \<^verbatim>\<open>nodeAllocatedSize_\<close>. \<^verbatim>\<open>sizeof(node)\<close> depends on the inner allocator's type and is the
  argument \<open>sizeof_node\<close>.
\<close>

record 's cascading_allocator_state =
  nodes :: "(pointer \<times> 's) list"
  nodeAllocatedSize :: size_t

definition cascading_allocator_ctor :: "'s cascading_allocator_state" where
  "cascading_allocator_ctor = \<lparr>nodes = [], nodeAllocatedSize = 0\<rparr>"

definition cascading_pHead :: "'s cascading_allocator_state \<Rightarrow> pointer" where
  "cascading_pHead s = (case nodes s of [] \<Rightarrow> 0 | (p, a) # rest \<Rightarrow> p)"

text \<open>
  \<^verbatim>\<open>eraseNode(n)\<close> on the list that starts at node \<open>n\<close>: erase the child nodes first, move
  the node to the stack, deallocate the node's own block from the node's allocator, and set
  \<open>n\<close> to \<^verbatim>\<open>nullptr\<close>; when the function returns, the node on the stack is destroyed, and its
  allocator with it. The result is the list left behind at \<open>n\<close> and the allocators that
  were destroyed, each in the state in which its destructor found it, in the order of
  their destruction.
\<close>

fun eraseNode ::
  "'s allocator \<Rightarrow> size_t \<Rightarrow> (pointer \<times> 's) list \<Rightarrow> ((pointer \<times> 's) list \<times> 's list) option" where
  "eraseNode A nodeSize [] = Some ([], [])"
| "eraseNode A nodeSize ((n, a) # rest) =
     (case eraseNode A nodeSize rest of
        None \<Rightarrow> None
      | Some (rest', destroyed) \<Rightarrow>
          (case deallocate A a \<lparr>ptr = n, size_b = nodeSize\<rparr> of
             None \<Rightarrow> None
           | Some a' \<Rightarrow> Some ([], destroyed @ [a'])))"

text \<open>
  \<^verbatim>\<open>createNode\<close>: \<open>fresh\<close> is the allocator that the default constructor of the inner
  allocator builds for the node on the stack. The result is the new node, if any, and the
  state of the cascade.
\<close>

definition createNode ::
  "'s allocator \<Rightarrow> size_t \<Rightarrow> 's \<Rightarrow> 's cascading_allocator_state \<Rightarrow>
     ((pointer \<times> 's) option \<times> 's cascading_allocator_state) option" where
  "createNode A sizeof_node fresh s =
     (case allocate A fresh sizeof_node of
        None \<Rightarrow> None
      | Some (nodeBlock, a') \<Rightarrow>
          if ptr nodeBlock = 0 then Some (None, s)
          else if nodeAllocatedSize s = 0 \<or> nodeAllocatedSize s = size_b nodeBlock
          then Some (Some (ptr nodeBlock, a'), s\<lparr>nodeAllocatedSize := size_b nodeBlock\<rparr>)
          else None)"

definition prependNode ::
  "'s allocator \<Rightarrow> size_t \<Rightarrow> 's \<Rightarrow> 's cascading_allocator_state \<Rightarrow>
     (bool \<times> 's cascading_allocator_state) option" where
  "prependNode A sizeof_node fresh s =
     (case createNode A sizeof_node fresh s of
        None \<Rightarrow> None
      | Some (None, s') \<Rightarrow> Some (False, s')
      | Some (Some pNewNode, s') \<Rightarrow> Some (True, s'\<lparr>nodes := pNewNode # nodes s'\<rparr>))"

text \<open>\<^verbatim>\<open>allocateNoGrow\<close> on the list of nodes: the block and the nodes after the walk.\<close>

fun allocateNoGrow ::
  "'s allocator \<Rightarrow> (pointer \<times> 's) list \<Rightarrow> size_t \<Rightarrow> (block \<times> (pointer \<times> 's) list) option" where
  "allocateNoGrow A [] n = Some (\<lparr>ptr = 0, size_b = 0\<rparr>, [])"
| "allocateNoGrow A ((p, a) # rest) n =
     (case allocate A a n of
        None \<Rightarrow> None
      | Some (b, a') \<Rightarrow>
          if ptr b \<noteq> 0 then Some (b, (p, a') # rest)
          else (case allocateNoGrow A rest n of
                  None \<Rightarrow> None
                | Some (b', rest') \<Rightarrow>
                    Some (if rest = [] then b else b', (p, a') # rest')))"

definition cascading_allocator_allocate ::
  "'s allocator \<Rightarrow> size_t \<Rightarrow> 's \<Rightarrow> 's cascading_allocator_state \<Rightarrow> size_t \<Rightarrow>
     (block \<times> 's cascading_allocator_state) option" where
  "cascading_allocator_allocate A sizeof_node fresh s n =
     (case allocateNoGrow A (nodes s) n of
        None \<Rightarrow> None
      | Some (b, ns) \<Rightarrow>
          if ptr b \<noteq> 0 then Some (b, s\<lparr>nodes := ns\<rparr>)
          else
            (case prependNode A sizeof_node fresh (s\<lparr>nodes := ns\<rparr>) of
               None \<Rightarrow> None
             | Some (False, s') \<Rightarrow> Some (\<lparr>ptr = 0, size_b = 0\<rparr>, s')
             | Some (True, s') \<Rightarrow>
                 (case nodes s' of
                    [] \<Rightarrow> None
                  | (p, a) # rest \<Rightarrow>
                      (case allocate A a n of
                         None \<Rightarrow> None
                       | Some (b', a') \<Rightarrow> Some (b', s'\<lparr>nodes := (p, a') # rest\<rparr>)))))"

text \<open>
  \<^verbatim>\<open>findOwningNode\<close>: the address of the first node whose allocator owns the block, \<open>None\<close>
  for \<^verbatim>\<open>nullptr\<close>. A call \<^verbatim>\<open>pNode->allocator_.f(...)\<close> acts on the allocator of the node at
  the address \<open>pNode\<close>: \<open>node_deallocate\<close> and \<open>node_reallocate\<close>.
\<close>

fun findOwningNode :: "'s allocator \<Rightarrow> (pointer \<times> 's) list \<Rightarrow> block \<Rightarrow> pointer option" where
  "findOwningNode A [] b = None"
| "findOwningNode A ((p, a) # rest) b =
     (if owns A a b then Some p else findOwningNode A rest b)"

fun node_deallocate ::
  "'s allocator \<Rightarrow> pointer \<Rightarrow> (pointer \<times> 's) list \<Rightarrow> block \<Rightarrow> (pointer \<times> 's) list option" where
  "node_deallocate A pNode [] b = None"
| "node_deallocate A pNode ((p, a) # rest) b =
     (if p = pNode then
        (case deallocate A a b of
           None \<Rightarrow> None
         | Some a' \<Rightarrow> Some ((p, a') # rest))
      else
        (case node_deallocate A pNode rest b of
           None \<Rightarrow> None
         | Some rest' \<Rightarrow> Some ((p, a) # rest')))"

fun node_reallocate ::
  "'s allocator \<Rightarrow> pointer \<Rightarrow> (pointer \<times> 's) list \<Rightarrow> block \<Rightarrow> size_t \<Rightarrow>
     (bool \<times> block \<times> (pointer \<times> 's) list) option" where
  "node_reallocate A pNode [] b newSize = None"
| "node_reallocate A pNode ((p, a) # rest) b newSize =
     (if p = pNode then
        (case reallocate A a b newSize of
           None \<Rightarrow> None
         | Some (r, b', a') \<Rightarrow> Some (r, b', (p, a') # rest))
      else
        (case node_reallocate A pNode rest b newSize of
           None \<Rightarrow> None
         | Some (r, b', rest') \<Rightarrow> Some (r, b', (p, a) # rest')))"

definition cascading_allocator_deallocate ::
  "'s allocator \<Rightarrow> 's cascading_allocator_state \<Rightarrow> block \<Rightarrow> 's cascading_allocator_state option" where
  "cascading_allocator_deallocate A s b =
     (case findOwningNode A (nodes s) b of
        None \<Rightarrow> Some s
      | Some pNode \<Rightarrow>
          (case node_deallocate A pNode (nodes s) b of
             None \<Rightarrow> None
           | Some ns \<Rightarrow> Some (s\<lparr>nodes := ns\<rparr>)))"

definition cascading_allocator_owns ::
  "'s allocator \<Rightarrow> 's cascading_allocator_state \<Rightarrow> block \<Rightarrow> bool" where
  "cascading_allocator_owns A s b = (findOwningNode A (nodes s) b \<noteq> None)"

text \<open>\<open>pNode->allocator_.deallocate(b)\<close> on the state of the cascade, as
  \<^verbatim>\<open>reallocate_and_copy\<close> calls it.\<close>

definition cascading_node_deallocate ::
  "'s allocator \<Rightarrow> pointer \<Rightarrow> 's cascading_allocator_state \<Rightarrow> block \<Rightarrow>
     's cascading_allocator_state option" where
  "cascading_node_deallocate A pNode s b =
     (case node_deallocate A pNode (nodes s) b of
        None \<Rightarrow> None
      | Some ns \<Rightarrow> Some (s\<lparr>nodes := ns\<rparr>))"

definition cascading_allocator_reallocate ::
  "'s allocator \<Rightarrow> size_t \<Rightarrow> 's \<Rightarrow> 's cascading_allocator_state \<Rightarrow> block \<Rightarrow> size_t \<Rightarrow>
     (bool \<times> block \<times> 's cascading_allocator_state) option" where
  "cascading_allocator_reallocate A sizeof_node fresh s b newSize =
     (case handle_common_reallocation_cases (alignment A)
             (cascading_allocator_allocate A sizeof_node fresh)
             (cascading_allocator_deallocate A) s b newSize of
        None \<Rightarrow> None
      | Some (True, b', s') \<Rightarrow> Some (True, b', s')
      | Some (False, b', s') \<Rightarrow>
          (case findOwningNode A (nodes s') b' of
             None \<Rightarrow> Some (False, b', s')
           | Some pNode \<Rightarrow>
               (case node_reallocate A pNode (nodes s') b' newSize of
                  None \<Rightarrow> None
                | Some (True, b'', ns) \<Rightarrow> Some (True, b'', s'\<lparr>nodes := ns\<rparr>)
                | Some (False, b'', ns) \<Rightarrow>
                    reallocate_and_copy (cascading_node_deallocate A pNode)
                      (cascading_allocator_allocate A sizeof_node fresh)
                      (s'\<lparr>nodes := ns\<rparr>) b'' newSize)))"

text \<open>
  \<^verbatim>\<open>deallocateAll\<close>. The last step constructs the node in place at \<^verbatim>\<open>pHead_\<close>, the base of
  the block just allocated; with a null block this is a write through \<^verbatim>\<open>nullptr\<close>. The
  result is the state of the cascade and the allocators that \<^verbatim>\<open>eraseNode\<close> destroyed.
\<close>

definition cascading_allocator_deallocateAll ::
  "'s allocator \<Rightarrow> size_t \<Rightarrow> 's cascading_allocator_state \<Rightarrow>
     ('s cascading_allocator_state \<times> 's list) option" where
  "cascading_allocator_deallocateAll A sizeof_node s =
     (case nodes s of
        [] \<Rightarrow> Some (s, [])
      | (p, a) # rest \<Rightarrow>
          (case eraseNode A (nodeAllocatedSize s) rest of
             None \<Rightarrow> None
           | Some (rest', destroyed) \<Rightarrow>
               (case deallocateAll A a of
                  None \<Rightarrow> None
                | Some a1 \<Rightarrow>
                    (case allocate A a1 sizeof_node of
                       None \<Rightarrow> None
                     | Some (nodeBlock, a2) \<Rightarrow>
                         if ptr nodeBlock = 0 then None
                         else Some (s\<lparr>nodes := (ptr nodeBlock, a2) # rest'\<rparr>, destroyed)))))"

text \<open>
  The states of a cascading allocator over inner allocators \<open>A\<close>: the state after
  construction, and every state that one of the operations leaves behind. In \<^verbatim>\<open>allocate\<close>
  and \<^verbatim>\<open>reallocate\<close> the default constructor of the inner allocator may build the
  allocator of a new node; the predicate \<open>constructed\<close> says which allocators it can build.
\<close>

inductive cascade_state ::
  "'s allocator \<Rightarrow> size_t \<Rightarrow> ('s \<Rightarrow> bool) \<Rightarrow> 's cascading_allocator_state \<Rightarrow> bool"
  for A :: "'s allocator" and sizeof_node :: size_t and constructed :: "'s \<Rightarrow> bool" where
  constructed_cascade:
    "cascade_state A sizeof_node constructed cascading_allocator_ctor"
| after_allocate:
    "cascade_state A sizeof_node constructed s \<Longrightarrow> constructed fresh \<Longrightarrow>
     cascading_allocator_allocate A sizeof_node fresh s n = Some (b, s') \<Longrightarrow>
     cascade_state A sizeof_node constructed s'"
| after_deallocate:
    "cascade_state A sizeof_node constructed s \<Longrightarrow>
     cascading_allocator_deallocate A s b = Some s' \<Longrightarrow>
     cascade_state A sizeof_node constructed s'"
| after_reallocate:
    "cascade_state A sizeof_node constructed s \<Longrightarrow> constructed fresh \<Longrightarrow>
     cascading_allocator_reallocate A sizeof_node fresh s b newSize = Some (r, b', s') \<Longrightarrow>
     cascade_state A sizeof_node constructed s'"
| after_deallocateAll:
    "cascade_state A sizeof_node constructed s \<Longrightarrow>
     cascading_allocator_deallocateAll A sizeof_node s = Some (s', destroyed) \<Longrightarrow>
     cascade_state A sizeof_node constructed s'"


section \<open>Self-hosted nodes over linear arenas\<close>




section \<open>Example states\<close>

text \<open>
  A free-list with range [16, 64], at most 8 nodes and batches of 4 over a stack linear
  arena of 1024 bytes at address 4096 with alignment 8, after its first \<^verbatim>\<open>allocate(16)\<close>:
  the batch of 256 bytes was carved into four nodes, and the node at 4288 was handed out.
\<close>

definition example_freelist_state_64 :: "linear_allocator_state freelist_state" where
  "example_freelist_state_64 =
     \<lparr>fl_inner = \<lparr>buffer = 4096, buffer_size = 1024, p_top = 4352\<rparr>,
      range_min = 16, range_max = 64, pHead = 4224, currentNodeCount = 3,
      node_next = (\<lambda>p. 0)(4096 := 0, 4160 := 4096, 4224 := 4160, 4288 := 4224)\<rparr>"

text \<open>
  A cascade over heap linear arenas of 1024 bytes with alignment 8, built on construction
  over the mallocator of \<open>example_heap\<close>, with nodes of 24 bytes, after three
  \<^verbatim>\<open>allocate(900)\<close>: no arena can hold two such blocks, so the second and the third
  \<^verbatim>\<open>allocate\<close> each prepended a node. The arenas were built when the next free address of
  the heap was 65536, 131072 and 196608; \<open>example_arena buf cursor\<close> is the arena built at
  \<open>buf\<close> with its cursor at \<open>cursor\<close>.
\<close>

definition example_arena :: "pointer \<Rightarrow> pointer \<Rightarrow> pointer heap_linear_allocator_state" where
  "example_arena buf cursor =
     \<lparr>buffer = buf, buffer_size = 1024, p_top = cursor, provider_allocator = buf + 1024\<rparr>"


chapter \<open>Properties\<close>

section \<open>The example states are reached\<close>

text \<open>Four iterations of the batch loop of \<^verbatim>\<open>tryPopulateFreeList\<close>.\<close>

lemma push_batch_four:
  "push_batch base blockSize i 4 s =
     (case pushNode s (base + i * blockSize) of
        None \<Rightarrow> None
      | Some s1 \<Rightarrow>
          (case pushNode s1 (base + (i + 1) * blockSize) of
             None \<Rightarrow> None
           | Some s2 \<Rightarrow>
               (case pushNode s2 (base + (i + 1 + 1) * blockSize) of
                  None \<Rightarrow> None
                | Some s3 \<Rightarrow> pushNode s3 (base + (i + 1 + 1 + 1) * blockSize))))"
  by (simp add: eval_nat_numeral split: option.split)

text \<open>
  The example free-list is the state after the first \<^verbatim>\<open>allocate(16)\<close> on a new free-list
  with range [16, 64].
\<close>

lemma example_freelist_state_64_reached:
  "freelist_allocate (stack_linear_allocator 8) 8 4
       (freelist_ctor (linear_allocator_ctor 4096 1024) 16 64) 16
     = Some (\<lparr>ptr = 4288, size_b = 64\<rparr>, example_freelist_state_64)"
  by (simp add: freelist_allocate_def freelist_ctor_def stack_linear_allocator_def
      stack_buffer_provider_init_def linear_allocator_def
      round_to_alignment_def freelist_isGoodSize_def tryPopulateFreeList_def
      freelist_inner_allocate_def linear_allocator_allocate_def linear_allocator_ctor_def
      hasEnoughSpace_def linear_end_def push_batch_four pushNode_def popNode_def
      example_freelist_state_64_def)


lemma example_arena_constructed:
  "heap_linear_allocator_ctor InitOnConstruct (mallocator_allocate example_heap) buf 1024 =
     Some (example_arena buf buf)"
  by (simp add: heap_linear_allocator_ctor_def is_lazy_init_def is_dynamic_value_def
      dynamic_value_def mallocator_allocate_def example_heap_def example_arena_def
      round_to_alignment_def)





section \<open>Linear arena: deallocation\<close>

text \<open>
  Claim C6. For the linear arena, \<^verbatim>\<open>deallocate(b)\<close> rewinds the cursor to the base of \<open>b\<close>
  exactly when the end of \<open>b\<close> (base plus size) is the current cursor, and then changes
  nothing but the cursor; for every other block the call returns normally and leaves the
  whole state of the arena (cursor, buffer and buffer size) as it was.
\<close>

theorem linear_deallocate_rewinds_last_block_only:
  "(ptr b + size_b b = p_top s \<longrightarrow>
      linear_allocator_deallocate s b = Some (s\<lparr>p_top := ptr b\<rparr>)) \<and>
   (ptr b + size_b b \<noteq> p_top s \<longrightarrow> linear_allocator_deallocate s b = Some s)"
  by (simp add: linear_allocator_deallocate_def isLastAllocatedBlock_def)

text \<open>
  The scenario of the test \<^verbatim>\<open>test_linear_allocator\<close>: a 128-byte buffer (placed at address
  4096) after \<^verbatim>\<open>allocate(16)\<close> and \<^verbatim>\<open>allocate(100)\<close>, cursor at offset 120. Deallocating the
  second block rewinds the cursor to offset 16; deallocating the first one changes nothing.
\<close>

theorem linear_deallocate_rewinds_last_block_only_witness:
  "linear_allocator_deallocate \<lparr>buffer = 4096, buffer_size = 128, p_top = 4216\<rparr>
       \<lparr>ptr = 4112, size_b = 104\<rparr>
     = Some \<lparr>buffer = 4096, buffer_size = 128, p_top = 4112\<rparr> \<and>
   linear_allocator_deallocate \<lparr>buffer = 4096, buffer_size = 128, p_top = 4216\<rparr>
       \<lparr>ptr = 4096, size_b = 16\<rparr>
     = Some \<lparr>buffer = 4096, buffer_size = 128, p_top = 4216\<rparr>"
  using linear_deallocate_rewinds_last_block_only
          [of "\<lparr>ptr = 4112, size_b = 104\<rparr>" "\<lparr>buffer = 4096, buffer_size = 128, p_top = 4216\<rparr>"]
        linear_deallocate_rewinds_last_block_only
          [of "\<lparr>ptr = 4096, size_b = 16\<rparr>" "\<lparr>buffer = 4096, buffer_size = 128, p_top = 4216\<rparr>"]
  by simp

section \<open>Free-list: reallocation of a block below the range\<close>

text \<open>
  Once the common cases are out of the way, \<^verbatim>\<open>freelist::reallocate\<close> looks at the new size
  only: when its rounded value lies in the range the call reports success and touches
  neither the block nor the free-list, whatever the size of the block is.
\<close>

lemma freelist_reallocate_in_range:
  assumes "alignment A \<noteq> 0"
    and "size_b b \<noteq> round_to_alignment newSize (alignment A)"
    and "newSize \<noteq> 0"
    and "ptr b \<noteq> 0"
    and "freelist_isGoodSize s (round_to_alignment newSize (alignment A))"
  shows "freelist_reallocate A MaxNodeCount BatchedAllocations s b newSize = Some (True, b, s)"
  using assms
  by (simp add: freelist_reallocate_def handle_common_reallocation_cases_def)

text \<open>
  Claim C2 (the contract of \<^verbatim>\<open>reallocate\<close>: true and a block of at least the new size, or
  false and the block unchanged), evaluated on a free-list with range [16, 64], at most 8
  nodes and batches of 4, over a linear arena of 1024 bytes with alignment 8.
  \<^verbatim>\<open>allocate(8)\<close> is below the range and is forwarded to the arena, which returns a block of
  8 bytes. \<^verbatim>\<open>reallocate\<close> of that block to 32 bytes returns true and leaves the block as it
  was: 8 bytes, not 32.
\<close>

theorem freelist_reallocate_reports_success_on_small_block:
  "freelist_allocate (stack_linear_allocator 8) 8 4
       (freelist_ctor (linear_allocator_ctor 4096 1024) 16 64) 8
     = Some (\<lparr>ptr = 4096, size_b = 8\<rparr>,
             freelist_ctor \<lparr>buffer = 4096, buffer_size = 1024, p_top = 4104\<rparr> 16 64) \<and>
   freelist_reallocate (stack_linear_allocator 8) 8 4
       (freelist_ctor \<lparr>buffer = 4096, buffer_size = 1024, p_top = 4104\<rparr> 16 64)
       \<lparr>ptr = 4096, size_b = 8\<rparr> 32
     = Some (True, \<lparr>ptr = 4096, size_b = 8\<rparr>,
             freelist_ctor \<lparr>buffer = 4096, buffer_size = 1024, p_top = 4104\<rparr> 16 64) \<and>
   size_b \<lparr>ptr = 4096, size_b = 8\<rparr> < 32"
proof -
  have a: "freelist_allocate (stack_linear_allocator 8) 8 4
       (freelist_ctor (linear_allocator_ctor 4096 1024) 16 64) 8
     = Some (\<lparr>ptr = 4096, size_b = 8\<rparr>,
             freelist_ctor \<lparr>buffer = 4096, buffer_size = 1024, p_top = 4104\<rparr> 16 64)"
    by (simp add: freelist_allocate_def freelist_ctor_def
        stack_linear_allocator_def stack_buffer_provider_init_def
        linear_allocator_def
        round_to_alignment_def freelist_isGoodSize_def freelist_inner_allocate_def
        linear_allocator_allocate_def linear_allocator_ctor_def hasEnoughSpace_def
        linear_end_def)
  have r: "freelist_reallocate (stack_linear_allocator 8) 8 4
       (freelist_ctor \<lparr>buffer = 4096, buffer_size = 1024, p_top = 4104\<rparr> 16 64)
       \<lparr>ptr = 4096, size_b = 8\<rparr> 32
     = Some (True, \<lparr>ptr = 4096, size_b = 8\<rparr>,
             freelist_ctor \<lparr>buffer = 4096, buffer_size = 1024, p_top = 4104\<rparr> 16 64)"
    by (rule freelist_reallocate_in_range)
      (simp_all add:
        stack_linear_allocator_def stack_buffer_provider_init_def
        linear_allocator_def round_to_alignment_def freelist_isGoodSize_def
        freelist_ctor_def)
  from a r show ?thesis
    by simp
qed

section \<open>Affix allocator: failure of the inner allocator\<close>

text \<open>
  \<^verbatim>\<open>affix_allocator::allocate\<close> strips whatever block the inner allocator returns. From the
  null block it makes a block whose base is the prefix size and whose size is what is left
  of 0 after subtracting both affix sizes.
\<close>

lemma affix_allocate_strips_null_block:
  assumes "allocate A s (affix_size A Prefix + n + affix_size A Suffix) = Some (nullblock, s')"
  shows "affix_allocator_allocate A Prefix Suffix s n =
           Some (\<lparr>ptr = affix_size A Prefix,
                  size_b = 0 - affix_size A Prefix - affix_size A Suffix\<rparr>, s')"
  using assms
  by (simp add: affix_allocator_allocate_def toStrippedBlock_def nullblock_def)

lemma stripped_null_block_is_not_null:
  assumes "affix_allocator_asserts A Prefix Suffix"
  shows "\<lparr>ptr = affix_size A Prefix,
          size_b = 0 - affix_size A Prefix - affix_size A Suffix\<rparr> \<noteq> nullblock"
proof (cases "affix_size A Prefix = 0")
  case True
  with assms have "affix_size A Suffix \<noteq> 0"
    by (simp add: affix_allocator_asserts_def)
  with True show ?thesis
    by (simp add: nullblock_def)
next
  case False
  then show ?thesis
    by (simp add: nullblock_def)
qed

text \<open>
  Claim C3 (a failed \<^verbatim>\<open>allocate\<close> returns the null block; the affix allocator returns the
  null block when its inner allocator does), evaluated on an affix allocator with a prefix
  of 8 bytes and no suffix over a linear arena of 16 bytes with alignment 8.
  \<^verbatim>\<open>allocate(24)\<close> asks the arena for 32 bytes; the arena returns the null block and the
  affix allocator returns a block with base 8 and size \<open>2^64 - 8\<close>.
\<close>

theorem affix_allocate_returns_non_null_block_on_failure:
  "allocate (stack_linear_allocator 8) (linear_allocator_ctor 4096 16) 32
     = Some (nullblock, linear_allocator_ctor 4096 16) \<and>
   affix_allocator_allocate (stack_linear_allocator 8) (Some 8) None (linear_allocator_ctor 4096 16) 24
     = Some (\<lparr>ptr = 8, size_b = 18446744073709551608\<rparr>, linear_allocator_ctor 4096 16)"
  by (simp add: affix_allocator_allocate_def affix_size_def
      stack_linear_allocator_def stack_buffer_provider_init_def
      linear_allocator_def
      linear_allocator_allocate_def linear_allocator_ctor_def round_to_alignment_def
      hasEnoughSpace_def linear_end_def nullblock_def toStrippedBlock_def)

section \<open>Bucketizer: reallocation to size zero\<close>

text \<open>
  \<^verbatim>\<open>bucketizer::reallocate\<close> tests the new size against the range before it calls
  \<^verbatim>\<open>handle_common_reallocation_cases\<close>: with a new size outside the range it returns false
  and changes nothing.
\<close>

lemma bucketizer_reallocate_out_of_range:
  assumes "\<not> bucketizer_isGoodSize R newSize"
  shows "bucketizer_reallocate A R buckets b newSize = Some (False, b, buckets)"
  using assms
  by (simp add: bucketizer_reallocate_def)

text \<open>
  The other compositors call \<^verbatim>\<open>handle_common_reallocation_cases\<close> first. For a block of
  non-zero size and the new size 0 it deallocates the block and returns true (the
  alignment is not zero); so do, for one, the \<^verbatim>\<open>reallocate\<close> of the segregator and of the
  affix allocator.
\<close>

lemma handle_common_reallocation_cases_zero:
  assumes "al \<noteq> 0"
    and "size_b b \<noteq> 0"
  shows "handle_common_reallocation_cases al alloc dealloc s b 0
           = map_option (\<lambda>s'. (True, b, s')) (dealloc s b)"
  using assms
  by (simp add: handle_common_reallocation_cases_def round_to_alignment_def
      split: option.split)

lemma segregator_reallocate_to_zero:
  assumes "segregator_alignment S L \<noteq> 0"
    and "size_b b \<noteq> 0"
  shows "segregator_reallocate Threshold S L st b 0
           = map_option (\<lambda>st'. (True, b, st')) (segregator_deallocate Threshold S L st b)"
  using assms
  by (simp add: segregator_reallocate_def handle_common_reallocation_cases_zero
      split: option.split)

lemma affix_reallocate_to_zero:
  assumes "alignment A \<noteq> 0"
    and "size_b b \<noteq> 0"
  shows "affix_allocator_reallocate A Prefix Suffix s b 0
           = map_option (\<lambda>s'. (True, b, s')) (affix_allocator_deallocate A Prefix Suffix s b)"
  using assms
  by (simp add: affix_allocator_reallocate_def handle_common_reallocation_cases_zero
      split: option.split)

text \<open>
  Claim C4 (\<^verbatim>\<open>reallocate(b, 0)\<close> deallocates \<open>b\<close> and returns true, for every compositor,
  the bucketizer included), evaluated on a bucketizer over the linear raider with range
  [16, 48] and step 16: whatever the bucket allocator, the buckets and the block are,
  \<^verbatim>\<open>reallocate(b, 0)\<close> returns false and leaves the block and every bucket as they were.
\<close>

theorem bucketizer_reallocate_to_zero_returns_false:
  "bucketizer_reallocate A (linear_range_raider 16 48 16) buckets b 0 = Some (False, b, buckets)"
  by (rule bucketizer_reallocate_out_of_range)
    (simp add: bucketizer_isGoodSize_def linear_range_raider_def)

section \<open>Raiders: the bucket index at the ends of the range\<close>

text \<open>
  The linear raider sends the upper end of its range to the index \<^verbatim>\<open>num_steps\<close>, one past
  the last bucket; the power-of-two raider sends the lower end of its range to
  \<open>0 - 1\<close>, which is \<^verbatim>\<open>invalid_index\<close>.
\<close>

lemma linear_step_index_upper_end:
  assumes "lo \<le> hi"
  shows "linear_step_index lo hi step hi = linear_num_steps lo hi step"
  using assms
  by (simp add: linear_step_index_def linear_num_steps_def is_in_range_def)

lemma pow2_step_index_lower_end:
  assumes "is_pow2 lo"
  shows "pow2_step_index lo hi lo = invalid_index"
  using assms
  by (simp add: pow2_step_index_def next_pow2_def pow2bit_min_index_def invalid_index_def)

text \<open>
  Claim C5 (for every \<open>n\<close> in [min, max], both ends included, \<^verbatim>\<open>step_index(n)\<close> is below
  \<^verbatim>\<open>num_steps\<close> and \<^verbatim>\<open>allocate(n)\<close> succeeds iff the bucket at that index does), evaluated on
  \<^verbatim>\<open>linear_range_raider<16, 48, 16>\<close> and on \<^verbatim>\<open>pow2_range_raider<16, 64>\<close>, both with two buckets.
  The linear raider gives 48 the index 2, and \<^verbatim>\<open>allocate(48)\<close> of a bucketizer with the two
  buckets \<open>a0\<close> and \<open>a1\<close> reads \<^verbatim>\<open>buckets_[2]\<close>. The power-of-two raider gives 16 the index
  \<open>2^64 - 1\<close>. The constructor of the bucketizer puts 48 into the bucket (33, 48) of index 1
  and 16 into the bucket (16, 32) of index 0.
\<close>

theorem step_index_out_of_bounds_at_range_ends:
  "linear_range_raider_asserts 16 48 16 \<and>
   num_steps (linear_range_raider 16 48 16) = 2 \<and>
   step_index (linear_range_raider 16 48 16) 48 = 2 \<and>
   bucket_bounds (linear_range_raider 16 48 16) = [(16, 32), (33, 48)] \<and>
   bucketizer_allocate A (linear_range_raider 16 48 16) [a0, a1] 48 = None \<and>
   pow2_range_raider_asserts 16 64 \<and>
   num_steps (pow2_range_raider 16 64) = 2 \<and>
   step_index (pow2_range_raider 16 64) 16 = 18446744073709551615 \<and>
   bucket_bounds (pow2_range_raider 16 64) = [(16, 32), (33, 64)] \<and>
   bucketizer_allocate A (pow2_range_raider 16 64) [a0, a1] 16 = None"
proof -
  have l1: "linear_range_raider_asserts 16 48 16"
    by (simp add: linear_range_raider_asserts_def)
  have l2: "num_steps (linear_range_raider 16 48 16) = 2"
    by (simp add: linear_range_raider_def linear_num_steps_def)
  have l3: "step_index (linear_range_raider 16 48 16) 48 = 2"
    by (simp add: linear_range_raider_def linear_step_index_def is_in_range_def)
  have l4: "bucket_bounds (linear_range_raider 16 48 16) = [(16, 32), (33, 48)]"
    by code_simp
  have l5: "bucketizer_allocate A (linear_range_raider 16 48 16) [a0, a1] 48 = None"
    using l3 by (simp add: bucketizer_allocate_def bucketizer_isGoodSize_def bucketIndex_def
        bucket_allocate_def linear_range_raider_def)
  have p1: "pow2_range_raider_asserts 16 64"
    by code_simp
  have p2: "num_steps (pow2_range_raider 16 64) = 2"
    by code_simp
  have p3: "step_index (pow2_range_raider 16 64) 16 = 18446744073709551615"
    by code_simp
  have p4: "bucket_bounds (pow2_range_raider 16 64) = [(16, 32), (33, 64)]"
    by code_simp
  have p5: "bucketizer_allocate A (pow2_range_raider 16 64) [a0, a1] 16 = None"
    using p3 by (simp add: bucketizer_allocate_def bucketizer_isGoodSize_def bucketIndex_def
        bucket_allocate_def pow2_range_raider_def)
  from l1 l2 l3 l4 l5 p1 p2 p3 p4 p5 show ?thesis
    by blast
qed

section \<open>Segregator: routing by the recorded size\<close>

text \<open>
  Claim C10. The segregator routes by the size recorded in the block and by nothing else.
  For every block \<open>b\<close> and every state \<open>(s, l)\<close> of the small and of the large allocator:
  \<^verbatim>\<open>deallocate(b)\<close> is the small allocator's \<^verbatim>\<open>deallocate(b)\<close> on \<open>s\<close>, with \<open>l\<close> left as it is,
  when the size of \<open>b\<close> is at most the threshold, and the large allocator's on \<open>l\<close>
  otherwise; \<^verbatim>\<open>owns(b)\<close> is the answer of that same inner allocator. \<^verbatim>\<open>reallocate(b, newSize)\<close>,
  once the common cases are out of the way (the alignment is not zero, the size of \<open>b\<close> is
  not the rounded new size, the new size is not zero and \<open>b\<close> is not null), takes the home
  of \<open>b\<close> from the same test on the size of \<open>b\<close> and the destination from the new size:
  small to small is the small allocator's \<^verbatim>\<open>reallocate(b, newSize)\<close> on \<open>s\<close>; small to large is
  the large allocator's \<^verbatim>\<open>allocate(newSize)\<close> on \<open>l\<close> and then, if the new block is not null,
  the small allocator's \<^verbatim>\<open>deallocate(b)\<close> on \<open>s\<close>; large to small is the small allocator's
  \<^verbatim>\<open>allocate(newSize)\<close> and then the large allocator's \<^verbatim>\<open>deallocate(b)\<close>; large to large is
  the large allocator's \<^verbatim>\<open>reallocate(b, newSize)\<close> on \<open>l\<close>.
\<close>

theorem segregator_routes_by_block_size:
  "(size_b b \<le> Threshold \<longrightarrow>
      segregator_deallocate Threshold S L (s, l) b
        = map_option (\<lambda>s'. (s', l)) (deallocate S s b) \<and>
      segregator_owns Threshold S L (s, l) b = owns S s b) \<and>
   (\<not> size_b b \<le> Threshold \<longrightarrow>
      segregator_deallocate Threshold S L (s, l) b
        = map_option (\<lambda>l'. (s, l')) (deallocate L l b) \<and>
      segregator_owns Threshold S L (s, l) b = owns L l b) \<and>
   (segregator_alignment S L \<noteq> 0 \<and>
    size_b b \<noteq> round_to_alignment newSize (segregator_alignment S L) \<and> newSize \<noteq> 0 \<and>
    ptr b \<noteq> 0 \<longrightarrow>
      segregator_reallocate Threshold S L (s, l) b newSize
        = (if size_b b \<le> Threshold
           then (if newSize \<le> Threshold
                 then map_option (\<lambda>(r, b', s'). (r, b', (s', l))) (reallocate S s b newSize)
                 else (case allocate L l newSize of
                         None \<Rightarrow> None
                       | Some (newBlock, l') \<Rightarrow>
                           if ptr newBlock = 0 then Some (False, b, (s, l'))
                           else map_option (\<lambda>s'. (True, newBlock, (s', l')))
                                  (deallocate S s b)))
           else (if newSize \<le> Threshold
                 then (case allocate S s newSize of
                         None \<Rightarrow> None
                       | Some (newBlock, s') \<Rightarrow>
                           if ptr newBlock = 0 then Some (False, b, (s', l))
                           else map_option (\<lambda>l'. (True, newBlock, (s', l')))
                                  (deallocate L l b))
                 else map_option (\<lambda>(r, b', l'). (r, b', (s, l')))
                        (reallocate L l b newSize))))"
proof (intro conjI impI)
  assume "size_b b \<le> Threshold"
  then show "segregator_deallocate Threshold S L (s, l) b
        = map_option (\<lambda>s'. (s', l)) (deallocate S s b)"
    by (simp add: segregator_deallocate_def small_deallocate_def split: option.split)
next
  assume "size_b b \<le> Threshold"
  then show "segregator_owns Threshold S L (s, l) b = owns S s b"
    by (simp add: segregator_owns_def)
next
  assume "\<not> size_b b \<le> Threshold"
  then show "segregator_deallocate Threshold S L (s, l) b
        = map_option (\<lambda>l'. (s, l')) (deallocate L l b)"
    by (simp add: segregator_deallocate_def large_deallocate_def split: option.split)
next
  assume "\<not> size_b b \<le> Threshold"
  then show "segregator_owns Threshold S L (s, l) b = owns L l b"
    by (simp add: segregator_owns_def)
next
  assume "segregator_alignment S L \<noteq> 0 \<and>
    size_b b \<noteq> round_to_alignment newSize (segregator_alignment S L) \<and>
    newSize \<noteq> 0 \<and> ptr b \<noteq> 0"
  then have h: "handle_common_reallocation_cases (segregator_alignment S L)
             (segregator_allocate Threshold S L) (segregator_deallocate Threshold S L)
             (s, l) b newSize = Some (False, b, (s, l))"
    by (simp add: handle_common_reallocation_cases_def)
  have ss: "small_reallocate S (s, l) b newSize
      = map_option (\<lambda>(r, b', s'). (r, b', (s', l))) (reallocate S s b newSize)"
    by (simp add: small_reallocate_def split: option.split)
  have ll: "large_reallocate L (s, l) b newSize
      = map_option (\<lambda>(r, b', l'). (r, b', (s, l'))) (reallocate L l b newSize)"
    by (simp add: large_reallocate_def split: option.split)
  have sl: "reallocate_and_copy (small_deallocate S) (large_allocate L) (s, l) b newSize
      = (case allocate L l newSize of
           None \<Rightarrow> None
         | Some (newBlock, l') \<Rightarrow>
             if ptr newBlock = 0 then Some (False, b, (s, l'))
             else map_option (\<lambda>s'. (True, newBlock, (s', l'))) (deallocate S s b))"
    by (simp add: reallocate_and_copy_def small_deallocate_def large_allocate_def
        split: option.split)
  have ls: "reallocate_and_copy (large_deallocate L) (small_allocate S) (s, l) b newSize
      = (case allocate S s newSize of
           None \<Rightarrow> None
         | Some (newBlock, s') \<Rightarrow>
             if ptr newBlock = 0 then Some (False, b, (s', l))
             else map_option (\<lambda>l'. (True, newBlock, (s', l'))) (deallocate L l b))"
    by (simp add: reallocate_and_copy_def large_deallocate_def small_allocate_def
        split: option.split)
  show "segregator_reallocate Threshold S L (s, l) b newSize
        = (if size_b b \<le> Threshold
           then (if newSize \<le> Threshold
                 then map_option (\<lambda>(r, b', s'). (r, b', (s', l))) (reallocate S s b newSize)
                 else (case allocate L l newSize of
                         None \<Rightarrow> None
                       | Some (newBlock, l') \<Rightarrow>
                           if ptr newBlock = 0 then Some (False, b, (s, l'))
                           else map_option (\<lambda>s'. (True, newBlock, (s', l')))
                                  (deallocate S s b)))
           else (if newSize \<le> Threshold
                 then (case allocate S s newSize of
                         None \<Rightarrow> None
                       | Some (newBlock, s') \<Rightarrow>
                           if ptr newBlock = 0 then Some (False, b, (s', l))
                           else map_option (\<lambda>l'. (True, newBlock, (s', l')))
                                  (deallocate L l b))
                 else map_option (\<lambda>(r, b', l'). (r, b', (s, l')))
                        (reallocate L l b newSize)))"
    unfolding segregator_reallocate_def h ss [symmetric] ll [symmetric] sl [symmetric]
      ls [symmetric]
    by simp
qed

text \<open>
  A segregator with threshold 100 over two stack linear arenas with alignment 8, the small
  one at 4096 holding a block of 16 bytes and the large one at 8192 holding a block of 200
  bytes. The block of 16 bytes is owned and deallocated by the small arena; its
  reallocation to 32 bytes is the small arena's, which moves its cursor, and its
  reallocation to 300 bytes takes 304 bytes from the large arena and rewinds the small one.
  The block of 200 bytes is owned and deallocated by the large arena; its reallocation to
  50 bytes takes 56 bytes from the small arena and rewinds the large one, and its
  reallocation to 300 bytes is the large arena's. On new arenas, \<^verbatim>\<open>allocate(100)\<close> is served
  by the small arena with a block of 104 bytes; by its size this block belongs to the
  large arena: \<^verbatim>\<open>owns\<close> is false and \<^verbatim>\<open>deallocate\<close> leaves the cursor of the small arena where
  it was.
\<close>

theorem segregator_routes_by_block_size_witness:
  "segregator_deallocate 100 (stack_linear_allocator 8) (stack_linear_allocator 8)
       (\<lparr>buffer = 4096, buffer_size = 256, p_top = 4112\<rparr>,
        \<lparr>buffer = 8192, buffer_size = 4096, p_top = 8392\<rparr>)
       \<lparr>ptr = 4096, size_b = 16\<rparr>
     = Some (\<lparr>buffer = 4096, buffer_size = 256, p_top = 4096\<rparr>,
             \<lparr>buffer = 8192, buffer_size = 4096, p_top = 8392\<rparr>) \<and>
   segregator_owns 100 (stack_linear_allocator 8) (stack_linear_allocator 8)
       (\<lparr>buffer = 4096, buffer_size = 256, p_top = 4112\<rparr>,
        \<lparr>buffer = 8192, buffer_size = 4096, p_top = 8392\<rparr>)
       \<lparr>ptr = 4096, size_b = 16\<rparr> \<and>
   segregator_reallocate 100 (stack_linear_allocator 8) (stack_linear_allocator 8)
       (\<lparr>buffer = 4096, buffer_size = 256, p_top = 4112\<rparr>,
        \<lparr>buffer = 8192, buffer_size = 4096, p_top = 8392\<rparr>)
       \<lparr>ptr = 4096, size_b = 16\<rparr> 32
     = Some (True, \<lparr>ptr = 4096, size_b = 16\<rparr>,
             \<lparr>buffer = 4096, buffer_size = 256, p_top = 4128\<rparr>,
             \<lparr>buffer = 8192, buffer_size = 4096, p_top = 8392\<rparr>) \<and>
   segregator_reallocate 100 (stack_linear_allocator 8) (stack_linear_allocator 8)
       (\<lparr>buffer = 4096, buffer_size = 256, p_top = 4112\<rparr>,
        \<lparr>buffer = 8192, buffer_size = 4096, p_top = 8392\<rparr>)
       \<lparr>ptr = 4096, size_b = 16\<rparr> 300
     = Some (True, \<lparr>ptr = 8392, size_b = 304\<rparr>,
             \<lparr>buffer = 4096, buffer_size = 256, p_top = 4096\<rparr>,
             \<lparr>buffer = 8192, buffer_size = 4096, p_top = 8696\<rparr>) \<and>
   segregator_deallocate 100 (stack_linear_allocator 8) (stack_linear_allocator 8)
       (\<lparr>buffer = 4096, buffer_size = 256, p_top = 4112\<rparr>,
        \<lparr>buffer = 8192, buffer_size = 4096, p_top = 8392\<rparr>)
       \<lparr>ptr = 8192, size_b = 200\<rparr>
     = Some (\<lparr>buffer = 4096, buffer_size = 256, p_top = 4112\<rparr>,
             \<lparr>buffer = 8192, buffer_size = 4096, p_top = 8192\<rparr>) \<and>
   segregator_owns 100 (stack_linear_allocator 8) (stack_linear_allocator 8)
       (\<lparr>buffer = 4096, buffer_size = 256, p_top = 4112\<rparr>,
        \<lparr>buffer = 8192, buffer_size = 4096, p_top = 8392\<rparr>)
       \<lparr>ptr = 8192, size_b = 200\<rparr> \<and>
   segregator_reallocate 100 (stack_linear_allocator 8) (stack_linear_allocator 8)
       (\<lparr>buffer = 4096, buffer_size = 256, p_top = 4112\<rparr>,
        \<lparr>buffer = 8192, buffer_size = 4096, p_top = 8392\<rparr>)
       \<lparr>ptr = 8192, size_b = 200\<rparr> 50
     = Some (True, \<lparr>ptr = 4112, size_b = 56\<rparr>,
             \<lparr>buffer = 4096, buffer_size = 256, p_top = 4168\<rparr>,
             \<lparr>buffer = 8192, buffer_size = 4096, p_top = 8192\<rparr>) \<and>
   segregator_reallocate 100 (stack_linear_allocator 8) (stack_linear_allocator 8)
       (\<lparr>buffer = 4096, buffer_size = 256, p_top = 4112\<rparr>,
        \<lparr>buffer = 8192, buffer_size = 4096, p_top = 8392\<rparr>)
       \<lparr>ptr = 8192, size_b = 200\<rparr> 300
     = Some (True, \<lparr>ptr = 8192, size_b = 200\<rparr>,
             \<lparr>buffer = 4096, buffer_size = 256, p_top = 4112\<rparr>,
             \<lparr>buffer = 8192, buffer_size = 4096, p_top = 8496\<rparr>) \<and>
   segregator_allocate 100 (stack_linear_allocator 8) (stack_linear_allocator 8)
       (linear_allocator_ctor 4096 256, linear_allocator_ctor 8192 4096) 100
     = Some (\<lparr>ptr = 4096, size_b = 104\<rparr>,
             \<lparr>buffer = 4096, buffer_size = 256, p_top = 4200\<rparr>,
             linear_allocator_ctor 8192 4096) \<and>
   segregator_deallocate 100 (stack_linear_allocator 8) (stack_linear_allocator 8)
       (\<lparr>buffer = 4096, buffer_size = 256, p_top = 4200\<rparr>, linear_allocator_ctor 8192 4096)
       \<lparr>ptr = 4096, size_b = 104\<rparr>
     = Some (\<lparr>buffer = 4096, buffer_size = 256, p_top = 4200\<rparr>,
             linear_allocator_ctor 8192 4096) \<and>
   \<not> segregator_owns 100 (stack_linear_allocator 8) (stack_linear_allocator 8)
       (\<lparr>buffer = 4096, buffer_size = 256, p_top = 4200\<rparr>, linear_allocator_ctor 8192 4096)
       \<lparr>ptr = 4096, size_b = 104\<rparr>"
proof -
  let ?A = "stack_linear_allocator 8"
  let ?s = "\<lparr>buffer = 4096, buffer_size = 256, p_top = 4112\<rparr>"
  let ?l = "\<lparr>buffer = 8192, buffer_size = 4096, p_top = 8392\<rparr>"
  let ?s2 = "\<lparr>buffer = 4096, buffer_size = 256, p_top = 4200\<rparr>"
  let ?l2 = "linear_allocator_ctor 8192 4096"
  let ?small = "\<lparr>ptr = 4096, size_b = 16\<rparr>"
  let ?large = "\<lparr>ptr = 8192, size_b = 200\<rparr>"
  note defs = stack_linear_allocator_def stack_buffer_provider_init_def
    linear_allocator_def linear_allocator_ctor_def linear_allocator_allocate_def
    linear_allocator_deallocate_def linear_allocator_reallocate_def linear_allocator_owns_def
    linear_begin_def linear_end_def hasEnoughSpace_def isLastAllocatedBlock_def
    round_to_alignment_def segregator_alignment_def handle_common_reallocation_cases_def
    reallocate_and_copy_def small_allocate_def segregator_allocate_def nullblock_def
  have small_small: "segregator_deallocate 100 ?A ?A (?s, ?l) ?small
       = Some (\<lparr>buffer = 4096, buffer_size = 256, p_top = 4096\<rparr>, ?l) \<and>
     segregator_owns 100 ?A ?A (?s, ?l) ?small \<and>
     segregator_reallocate 100 ?A ?A (?s, ?l) ?small 32
       = Some (True, ?small, \<lparr>buffer = 4096, buffer_size = 256, p_top = 4128\<rparr>, ?l)"
    using segregator_routes_by_block_size
      [where b = ?small and Threshold = 100 and S = ?A and L = ?A and s = ?s and l = ?l
         and newSize = 32]
    by (simp add: defs)
  have small_large: "segregator_reallocate 100 ?A ?A (?s, ?l) ?small 300
       = Some (True, \<lparr>ptr = 8392, size_b = 304\<rparr>,
               \<lparr>buffer = 4096, buffer_size = 256, p_top = 4096\<rparr>,
               \<lparr>buffer = 8192, buffer_size = 4096, p_top = 8696\<rparr>)"
    using segregator_routes_by_block_size
      [where b = ?small and Threshold = 100 and S = ?A and L = ?A and s = ?s and l = ?l
         and newSize = 300]
    by (simp add: defs)
  have large_small: "segregator_deallocate 100 ?A ?A (?s, ?l) ?large
       = Some (?s, \<lparr>buffer = 8192, buffer_size = 4096, p_top = 8192\<rparr>) \<and>
     segregator_owns 100 ?A ?A (?s, ?l) ?large \<and>
     segregator_reallocate 100 ?A ?A (?s, ?l) ?large 50
       = Some (True, \<lparr>ptr = 4112, size_b = 56\<rparr>,
               \<lparr>buffer = 4096, buffer_size = 256, p_top = 4168\<rparr>,
               \<lparr>buffer = 8192, buffer_size = 4096, p_top = 8192\<rparr>)"
    using segregator_routes_by_block_size
      [where b = ?large and Threshold = 100 and S = ?A and L = ?A and s = ?s and l = ?l
         and newSize = 50]
    by (simp add: defs)
  have large_large: "segregator_reallocate 100 ?A ?A (?s, ?l) ?large 300
       = Some (True, ?large, ?s, \<lparr>buffer = 8192, buffer_size = 4096, p_top = 8496\<rparr>)"
    using segregator_routes_by_block_size
      [where b = ?large and Threshold = 100 and S = ?A and L = ?A and s = ?s and l = ?l
         and newSize = 300]
    by (simp add: defs)
  have misplaced: "segregator_deallocate 100 ?A ?A (?s2, ?l2) \<lparr>ptr = 4096, size_b = 104\<rparr>
       = Some (?s2, ?l2) \<and>
     \<not> segregator_owns 100 ?A ?A (?s2, ?l2) \<lparr>ptr = 4096, size_b = 104\<rparr>"
    using segregator_routes_by_block_size
      [where b = "\<lparr>ptr = 4096, size_b = 104\<rparr>" and Threshold = 100 and S = ?A and L = ?A
         and s = ?s2 and l = ?l2 and newSize = 200]
    by (simp add: defs)
  have alloc: "segregator_allocate 100 ?A ?A
       (linear_allocator_ctor 4096 256, linear_allocator_ctor 8192 4096) 100
     = Some (\<lparr>ptr = 4096, size_b = 104\<rparr>, ?s2, ?l2)"
    by (simp add: defs)
  from small_small small_large large_small large_large misplaced alloc show ?thesis
    by simp
qed

section \<open>Free-list: recycling of a deallocated block\<close>





text \<open>
  The second assumption is needed. With range [8, 60] over an arena with alignment 8 the
  blocks of the free-list are 60 bytes long and their bases are not all multiples of 8: the
  first \<^verbatim>\<open>allocate(16)\<close> returns 60 bytes at 4276. After \<^verbatim>\<open>deallocate\<close> of that block,
  \<^verbatim>\<open>allocate(60)\<close>, whose rounded size 64 is above the range, is forwarded to the arena and
  returns 64 bytes at 4336.
\<close>

lemma freelist_with_unaligned_max_forwards_upper_end:
  "(case freelist_allocate (stack_linear_allocator 8) 8 4
            (freelist_ctor (linear_allocator_ctor 4096 1024) 8 60) 16 of
      None \<Rightarrow> False
    | Some (b, s1) \<Rightarrow>
        b = \<lparr>ptr = 4276, size_b = 60\<rparr> \<and> \<not> isFull 8 s1 \<and> size_b b = range_max s1 \<and>
        is_in_range (range_min s1) (range_max s1) 60 \<and>
        (case freelist_deallocate (stack_linear_allocator 8) 8 s1 b of
           None \<Rightarrow> False
         | Some s2 \<Rightarrow>
             (case freelist_allocate (stack_linear_allocator 8) 8 4 s2 60 of
                None \<Rightarrow> False
              | Some (b', s3) \<Rightarrow> b' = \<lparr>ptr = 4336, size_b = 64\<rparr>)))"
  by code_simp

section \<open>Cascading allocator: deallocateAll\<close>

























section \<open>Allocation: the size of the returned block\<close>

text \<open>
  The allocators that compute the size of the block they return round the requested size
  up to their alignment: the linear arena returns the null block or a block of the rounded
  size, and, where the alignment is not zero and the rounding does not wrap around, the
  rounded size is a multiple of the alignment and not below the requested size.
\<close>

lemma unat_round_to_alignment:
  assumes al: "al \<noteq> 0" and nov: "unat n + unat al \<le> 2 ^ 64"
  shows "unat (round_to_alignment n al) =
           (if unat n mod unat al = 0 then unat n else unat n + (unat al - unat n mod unat al))"
proof (cases "n mod al = 0")
  case True
  then have "unat n mod unat al = 0"
    by (metis unat_mod unat_0)
  with True show ?thesis
    by (simp add: round_to_alignment_def)
next
  case False
  have m: "unat (n mod al) = unat n mod unat al"
    by (rule unat_mod)
  from False have nz: "unat n mod unat al \<noteq> 0"
    using m by (metis unat_eq_zero)
  from al have alpos: "0 < unat al"
    by (simp add: unat_gt_0)
  then have lt: "unat n mod unat al < unat al"
    by simp
  have "n mod al \<le> al"
    using lt m by (simp add: word_le_nat_alt)
  then have sub: "unat (al - n mod al) = unat al - unat n mod unat al"
    using m by (simp add: unat_sub)
  have "unat n + unat (al - n mod al) < 2 ^ 64"
    using sub nz lt nov by simp
  then have "unat (n + (al - n mod al)) = unat n + unat (al - n mod al)"
    by (simp add: unat_add_lem [THEN iffD1])
  with sub False nz show ?thesis
    by (simp add: round_to_alignment_def)
qed

lemma round_to_alignment_ge:
  assumes "al \<noteq> 0" and "unat n + unat al \<le> 2 ^ 64"
  shows "n \<le> round_to_alignment n al"
  using unat_round_to_alignment [OF assms]
  by (simp add: word_le_nat_alt)

lemma round_to_alignment_aligned:
  assumes "al \<noteq> 0" and "unat n + unat al \<le> 2 ^ 64"
  shows "round_to_alignment n al mod al = 0"
proof -
  from assms(1) have alpos: "0 < unat al"
    by (simp add: unat_gt_0)
  have "unat (round_to_alignment n al) mod unat al = 0"
  proof (cases "unat n mod unat al = 0")
    case True
    then show ?thesis
      using unat_round_to_alignment [OF assms] by simp
  next
    case False
    have le: "unat n mod unat al \<le> unat n"
      by simp
    have lt: "unat n mod unat al < unat al"
      using alpos by simp
    have "unat n + (unat al - unat n mod unat al) = (unat n - unat n mod unat al) + unat al"
      using le lt by linarith
    also have "\<dots> = unat al * (unat n div unat al) + unat al"
      by (simp add: minus_mod_eq_mult_div)
    finally have "(unat n + (unat al - unat n mod unat al)) mod unat al = 0"
      by simp
    with False show ?thesis
      using unat_round_to_alignment [OF assms] by simp
  qed
  then have "unat (round_to_alignment n al mod al) = 0"
    by (simp add: unat_mod)
  then show ?thesis
    by (simp add: unat_eq_zero)
qed

lemma linear_allocate_rounds_size:
  assumes "al \<noteq> 0"
    and "linear_allocator_allocate init al s n = Some (b, s')"
  shows "b = nullblock \<or> size_b b = round_to_alignment n al"
  using assms
  by (auto simp: linear_allocator_allocate_def Let_def split: if_splits option.splits)

text \<open>
  Claim C1 (a non-null block \<open>b\<close> returned by \<^verbatim>\<open>allocate(n)\<close> has a size of at least \<open>n\<close> that is
  a multiple of the alignment, a base that is a multiple of the alignment, and is owned; in
  particular for the mallocator, with alignment 8), evaluated on the mallocator over the
  example heap. \<^verbatim>\<open>allocate(3)\<close> returns a non-null block of 3 bytes, and 3 is not a multiple
  of 8; the stack linear arena with the same alignment returns 8 bytes for the same
  request. The mallocator's own \<^verbatim>\<open>reallocate\<close> compares the size of the block with the rounded
  new size: \<^verbatim>\<open>reallocate\<close> of that block to its own size 3 is not taken as a reallocation to
  the same size (3 is not the rounded size 8) and goes to \<^verbatim>\<open>realloc\<close>, which moves the block.
\<close>

theorem mallocator_allocate_returns_unrounded_size:
  "mallocator_allocate example_heap 4096 3 = Some (\<lparr>ptr = 4096, size_b = 3\<rparr>, 4112) \<and>
   ptr \<lparr>ptr = 4096, size_b = 3\<rparr> \<noteq> 0 \<and>
   size_b \<lparr>ptr = 4096, size_b = 3\<rparr> mod mallocator_alignment = 3 \<and>
   round_to_alignment 3 mallocator_alignment = 8 \<and>
   allocate (stack_linear_allocator 8) (linear_allocator_ctor 4096 1024) 3
     = Some (\<lparr>ptr = 4096, size_b = 8\<rparr>, \<lparr>buffer = 4096, buffer_size = 1024, p_top = 4104\<rparr>) \<and>
   mallocator_reallocate example_heap 4112 \<lparr>ptr = 4096, size_b = 3\<rparr> 3
     = Some (True, \<lparr>ptr = 4112, size_b = 3\<rparr>, 4128)"
  by (simp add: mallocator_allocate_def mallocator_reallocate_def mallocator_alignment_def
      example_heap_def round_to_alignment_def handle_common_reallocation_cases_def
      stack_linear_allocator_def stack_buffer_provider_init_def linear_allocator_def
      linear_allocator_allocate_def linear_allocator_ctor_def hasEnoughSpace_def
      linear_end_def)

end
